theory Spec2Isabelle
  imports Main
begin

section \<open>Exceptions of the JavaScript runtime\<close>

text \<open>
  The client is JavaScript. Where the source reads a property of \<open>undefined\<close>, calls
  something that is not a function, or emits an \<open>error\<close> event nobody listens to, the
  runtime throws. Every such throw is a value of the model: \<open>TypeError\<close> is the
  runtime's own, \<open>Thrown v\<close> is \<^verbatim>\<open>throw v\<close>.
\<close>

datatype 'a js_exn =
    TypeError
  | Thrown 'a

section \<open>CorkedEmitter (lib/client/search-result/corked-emitter.js)\<close>

text \<open>
  An event is its name and its argument. The emitter holds
  \<^item> \<open>eventQueue\<close>: the queue of bound emits; \<open>Some q\<close> is the array \<open>q\<close> (an array is
    truthy in JavaScript, also the empty one), \<open>None\<close> is the value \<open>false\<close> that the
    drain stores once the queue is empty;
  \<^item> \<open>listeners\<close>: the registered listeners (event name and an identifier), in
    registration order;
  \<^item> \<open>newListenerOnce\<close>: the \<open>once('newListener', ...)\<close> handler of the constructor is
    still registered;
  \<^item> \<open>immediates\<close>: how many \<open>setImmediate(emitOneEvent)\<close> callbacks are scheduled;
  \<^item> \<open>delivered\<close>: the events that went through \<open>EventEmitter.prototype.emit\<close>, in
    order.
  Listeners are observers: what a listener does when it is called is not part of the
  emitter, so a listener is an identifier and a call of it is an entry of \<open>delivered\<close>.
\<close>

record ('a, 'l) emitter =
  eventQueue :: "(string \<times> 'a) list option"
  listeners :: "(string \<times> 'l) list"
  newListenerOnce :: bool
  immediates :: nat
  delivered :: "(string \<times> 'a) list"

definition CorkedEmitter :: "('a, 'l) emitter" where
  "CorkedEmitter =
     \<lparr>eventQueue = Some [], listeners = [], newListenerOnce = True,
      immediates = 0, delivered = []\<rparr>"

definition listenersOf :: "('a, 'l) emitter \<Rightarrow> string \<Rightarrow> 'l list" where
  "listenersOf st name = map snd (filter (\<lambda>p. fst p = name) (listeners st))"

text \<open>
  The handler of \<open>once('newListener')\<close>: it is removed, and it schedules the first
  \<open>emitOneEvent\<close>.
\<close>

definition fireNewListener :: "('a, 'l) emitter \<Rightarrow> ('a, 'l) emitter" where
  "fireNewListener st =
     (if newListenerOnce st
      then st\<lparr>newListenerOnce := False, immediates := Suc (immediates st)\<rparr>
      else st)"

text \<open>
  \<open>EventEmitter.prototype.emit\<close>: an \<open>error\<close> event without an \<open>error\<close> listener is
  thrown; a \<open>newListener\<close> event runs the handler of the constructor; any other event
  is handed to the listeners.
\<close>

definition ee_emit :: "('a, 'l) emitter \<Rightarrow> string \<times> 'a \<Rightarrow> ('a, 'l) emitter \<times> 'a js_exn option" where
  "ee_emit st ev =
     (if fst ev = ''error'' \<and> listenersOf st ''error'' = []
      then (st, Some (Thrown (snd ev)))
      else if fst ev = ''newListener''
      then (fireNewListener st, None)
      else (st\<lparr>delivered := delivered st @ [ev]\<rparr>, None))"

text \<open>\<open>CorkedEmitter.prototype.emit\<close> (\<open>corkedEmit\<close>).\<close>

definition emit :: "('a, 'l) emitter \<Rightarrow> string \<times> 'a \<Rightarrow> ('a, 'l) emitter \<times> 'a js_exn option" where
  "emit st ev =
     (case eventQueue st of
        Some q \<Rightarrow>
          if fst ev \<noteq> ''newListener''
          then (st\<lparr>eventQueue := Some (q @ [ev])\<rparr>, None)
          else ee_emit st ev
      | None \<Rightarrow> ee_emit st ev)"

text \<open>
  \<open>on(name, listener)\<close> of the base class: with a \<open>newListener\<close> listener registered it
  emits \<open>newListener\<close> first (through \<open>emit\<close>, which never queues that event), then it
  appends the listener.
\<close>

definition on :: "('a, 'l) emitter \<Rightarrow> string \<Rightarrow> 'l \<Rightarrow> ('a, 'l) emitter" where
  "on st name l =
     (let st1 = fireNewListener st
      in st1\<lparr>listeners := listeners st1 @ [(name, l)]\<rparr>)"

text \<open>
  \<open>emitOneEvent\<close>, the body of the scheduled callback:
  \<^verbatim>\<open>self.eventQueue.shift()()\<close> takes the head of the queue and calls it. On an empty
  array \<open>shift()\<close> is \<open>undefined\<close> and the call throws a TypeError before anything else
  runs; the queue is then still the empty array and nothing is scheduled.
\<close>

definition emitOneEvent :: "('a, 'l) emitter \<Rightarrow> ('a, 'l) emitter \<times> 'a js_exn option" where
  "emitOneEvent st =
     (case eventQueue st of
        None \<Rightarrow> (st, Some TypeError)
      | Some [] \<Rightarrow> (st, Some TypeError)
      | Some (e # q) \<Rightarrow>
          (case ee_emit (st\<lparr>eventQueue := Some q\<rparr>) e of
             (st1, Some x) \<Rightarrow> (st1, Some x)
           | (st1, None) \<Rightarrow>
               if q = [] then (st1\<lparr>eventQueue := None\<rparr>, None)
               else (st1\<lparr>immediates := Suc (immediates st1)\<rparr>, None)))"

text \<open>One turn of the scheduler: the oldest scheduled callback runs, if there is one.\<close>

definition tick :: "('a, 'l) emitter \<Rightarrow> ('a, 'l) emitter \<times> 'a js_exn option" where
  "tick st =
     (if immediates st = 0 then (st, None)
      else emitOneEvent (st\<lparr>immediates := immediates st - 1\<rparr>))"

text \<open>Emitting a list of events, and running the scheduler \<open>n\<close> times; both stop at a throw.\<close>

fun emits :: "('a, 'l) emitter \<Rightarrow> (string \<times> 'a) list \<Rightarrow> ('a, 'l) emitter \<times> 'a js_exn option" where
  "emits st [] = (st, None)"
| "emits st (ev # evs) =
     (case emit st ev of
        (st1, Some x) \<Rightarrow> (st1, Some x)
      | (st1, None) \<Rightarrow> emits st1 evs)"

fun ticks :: "nat \<Rightarrow> ('a, 'l) emitter \<Rightarrow> ('a, 'l) emitter \<times> 'a js_exn option" where
  "ticks 0 st = (st, None)"
| "ticks (Suc n) st =
     (case tick st of
        (st1, Some x) \<Rightarrow> (st1, Some x)
      | (st1, None) \<Rightarrow> ticks n st1)"

text \<open>An event can be replayed when the base class does not throw it.\<close>

definition replayable :: "('a, 'l) emitter \<Rightarrow> string \<times> 'a \<Rightarrow> bool" where
  "replayable st ev \<longleftrightarrow>
     fst ev \<noteq> ''newListener'' \<and> (fst ev = ''error'' \<longrightarrow> listenersOf st ''error'' \<noteq> [])"

section \<open>Messages, controls and errors\<close>

text \<open>
  The codec (\<open>lib/messages\<close>, \<open>lib/errors\<close>, \<open>@ldapjs/controls\<close>) is outside the client.
  The client looks at the class of a message, its \<open>messageID\<close>, its \<open>status\<close> and its
  \<open>controls\<close>; of a control it looks at \<open>type\<close> and \<open>value.cookie\<close>. The status of a
  result is a number, or the string \<open>'unbind'\<close> that \<open>_onClose\<close> stores.
\<close>

datatype status = Code nat | UnbindStatus

datatype ldap_error =
    ConnectionError string
  | TimeoutError string
  | ProtocolError string
  | ResultError status
  | PagedResultsError string
  | OtherError string

datatype control = Control (ctype: string) (cookie: "nat list")

datatype message =
    SearchEntry nat
  | SearchReference nat
  | LDAPResult nat status "control list"
  | UnbindResponse nat status
  | OtherMessage nat string

fun controls :: "message \<Rightarrow> control list" where
  "controls (LDAPResult i s cs) = cs"
| "controls m = []"

text \<open>
  Modelled from the spec: the object identifier of the paged-results control, the
  constant \<open>PagedResultsControl.OID\<close> of the package \<open>@ldapjs/controls\<close>.
\<close>

definition PagedResultsControl_OID :: string where
  "PagedResultsControl_OID = ''1.2.840.113556.1.4.319''"

section \<open>SearchResult (lib/client/search-result/index.js)\<close>

text \<open>
  A SearchResult is a CorkedEmitter. The arguments of its events: \<open>page\<close> carries the
  result and the second argument of the emit (absent, the falsy \<open>pagePause\<close>, the empty
  function, or \<open>resumeNextPage\<close>); \<open>searchEntry\<close>, \<open>searchReference\<close> and \<open>end\<close> carry a
  message; \<open>error\<close> and \<open>pageError\<close> an error; \<open>searchRequest\<close> the request sent
  (its messageID); \<open>NoArg\<close> is an emit without an argument.
  Its listeners are the caller's, or the ones \<open>entries\<close> attaches.
\<close>

datatype resume = ResumeMissing | ResumeFalsy | ResumeNoop | ResumeNextPage

datatype search_arg =
    Page message resume
  | Msg message
  | Err ldap_error
  | Req nat
  | NoArg

datatype search_listener =
    User nat
  | InjectError
  | InjectEnd
  | InjectEntry
  | InjectReference
  | PageOnce

type_synonym search_result = "(search_arg, search_listener) emitter"

definition SearchResult :: search_result where
  "SearchResult = CorkedEmitter"

subsection \<open>getInjectableAsyncIterator\<close>

text \<open>
  The first argument of \<open>inject\<close> is \<open>null\<close>, \<open>true\<close> or an error. A promise of the queue is
  pending, resolved or rejected; settling a settled promise changes nothing.
\<close>

datatype inject_err = ErrNull | ErrTrue | ErrValue search_arg

datatype 'v promise = Pending | Resolved 'v | Rejected inject_err

fun resolve :: "'v promise \<Rightarrow> 'v \<Rightarrow> 'v promise" where
  "resolve Pending v = Resolved v"
| "resolve p v = p"

fun reject :: "'v promise \<Rightarrow> inject_err \<Rightarrow> 'v promise" where
  "reject Pending e = Rejected e"
| "reject p e = p"

text \<open>
  The iterator is the generator object with two properties assigned to it,
  \<open>eventStream\<close> and \<open>inject\<close>. The generator is made by
  \<^verbatim>\<open>(async function * () { ... this.eventStream ... })()\<close>: a function expression called
  without a receiver, in a file that starts with \<open>'use strict'\<close>. Inside its body
  \<open>this\<close> is therefore \<open>undefined\<close>, not the object the properties were assigned to;
  \<open>generatorThis\<close> records the binding. \<open>inject\<close> is bound to the iterator by \<open>entries\<close>,
  and does see \<open>eventStream\<close>.
\<close>

datatype this_binding = ThisUndefined | ThisIterator

record 'v iterator =
  eventStream :: "'v promise list"
  generatorThis :: this_binding

definition getInjectableAsyncIterator :: "'v iterator" where
  "getInjectableAsyncIterator = \<lparr>eventStream = [Pending], generatorThis = ThisUndefined\<rparr>"

text \<open>
  \<open>inject(err, val)\<close>. The value resolved is \<open>val.value\<close>; the message classes are the
  codec's, so the property read is the parameter \<open>value_of\<close>. With an empty queue
  \<open>tail\<close> is \<open>undefined\<close> and its use throws.
\<close>

definition inject ::
  "(message \<Rightarrow> 'v) \<Rightarrow> 'v iterator \<Rightarrow> inject_err \<Rightarrow> message option
     \<Rightarrow> inject_err js_exn + 'v iterator" where
  "inject value_of it err val =
     (case val of
        Some m \<Rightarrow>
          if eventStream it = [] then Inl TypeError
          else Inr (it\<lparr>eventStream :=
                  butlast (eventStream it) @ [resolve (last (eventStream it)) (value_of m)]
                  @ (if err = ErrNull then [Pending] else [])\<rparr>)
      | None \<Rightarrow>
          if err \<noteq> ErrNull
          then if eventStream it = [] then Inl TypeError
               else Inr (it\<lparr>eventStream :=
                  butlast (eventStream it) @ [reject (last (eventStream it)) err]\<rparr>)
          else Inr it)"

text \<open>
  One \<open>next()\<close> of the generator: it awaits the head of the queue, removes it, and
  yields the value when promises remain, returns it otherwise. Reading
  \<open>this.eventStream\<close> with \<open>this\<close> undefined throws, which rejects \<open>next()\<close>.
\<close>

datatype 'v step = Yield 'v | Return "'v option" | Throw "inject_err js_exn" | Await

definition generator_next :: "'v iterator \<Rightarrow> 'v step \<times> 'v iterator" where
  "generator_next it =
     (case generatorThis it of
        ThisUndefined \<Rightarrow> (Throw TypeError, it)
      | ThisIterator \<Rightarrow>
          (case eventStream it of
             [] \<Rightarrow> (Return None, it)
           | Pending # ds \<Rightarrow> (Await, it)
           | Rejected e # ds \<Rightarrow> (Throw (Thrown e), it)
           | Resolved v # ds \<Rightarrow>
               (if ds \<noteq> [] then Yield v else Return (Some v), it\<lparr>eventStream := ds\<rparr>)))"

text \<open>
  \<^verbatim>\<open>for await (const e of iterator) entries.push(e)\<close>, run on the promises settled so
  far: a yielded value is pushed, a return ends the loop, a throw rejects, and a
  pending promise leaves the consumer waiting.
\<close>

datatype 'r settled = Fulfilled 'r | RejectedWith "inject_err js_exn" | Waiting

function for_await :: "'v iterator \<Rightarrow> 'v list \<Rightarrow> 'v list settled" where
  "for_await it acc =
     (case generator_next it of
        (Yield v, it1) \<Rightarrow> for_await it1 (acc @ [v])
      | (Return r, it1) \<Rightarrow> Fulfilled acc
      | (Throw x, it1) \<Rightarrow> RejectedWith x
      | (Await, it1) \<Rightarrow> Waiting)"
  by pat_completeness auto
termination
  by (relation "measure (\<lambda>(it, acc). length (eventStream it))")
     (auto simp: generator_next_def
        split: this_binding.splits list.splits promise.splits if_splits)

subsection \<open>entries and toArray\<close>

text \<open>
  \<open>options\<close> is \<open>None\<close> when the caller passes no argument: the parameter is then
  \<open>undefined\<close>, and \<^verbatim>\<open>options.includeSearchReferences\<close> throws a TypeError. The three
  listeners are attached before that read.
\<close>

record entries_options =
  includeSearchReferences :: bool
  pagePause :: bool

definition entries ::
  "search_result \<Rightarrow> entries_options option
     \<Rightarrow> search_result \<times> (inject_err js_exn + 'v iterator)" where
  "entries sr options =
     (let sr1 = on (on (on sr ''error'' InjectError) ''end'' InjectEnd)
                  ''searchEntry'' InjectEntry
      in case options of
           None \<Rightarrow> (sr1, Inl TypeError)
         | Some opts \<Rightarrow>
             (let sr2 = (if includeSearchReferences opts
                         then on sr1 ''searchReference'' InjectReference else sr1);
                  sr3 = (if pagePause opts then on sr2 ''page'' PageOnce else sr2)
              in (sr3, Inr getInjectableAsyncIterator)))"

text \<open>
  \<open>toArray\<close> is an \<open>async\<close> function: what its body throws rejects the promise it
  returns.
\<close>

definition toArray ::
  "search_result \<Rightarrow> entries_options option \<Rightarrow> search_result \<times> 'v list settled" where
  "toArray sr options =
     (case entries sr options of
        (sr1, Inl x) \<Rightarrow> (sr1, RejectedWith x)
      | (sr1, Inr it) \<Rightarrow> (sr1, for_await it []))"

text \<open>\<open>[Symbol.asyncIterator]\<close> calls \<open>entries\<close> without an argument.\<close>

definition asyncIterator :: "search_result \<Rightarrow> search_result \<times> (inject_err js_exn + 'v iterator)" where
  "asyncIterator sr = entries sr None"

section \<open>PageResult (lib/client/search-result/paged-result.js)\<close>

text \<open>
  The handler of \<open>end\<close>, for one page. It emits on the caller's SearchResult, may write
  the cookie into the shared control, and may call \<open>callback(self)\<close>, which sends the
  request of the next page (\<open>po_nextPage\<close>). An emit that throws ends the handler.
  \<open>pause\<close> is \<open>options.pagePause\<close>.
\<close>

record page_outcome =
  po_emitter :: search_result
  po_control :: control
  po_nextPage :: bool
  po_thrown :: "search_arg js_exn option"

definition pagedNotSupported :: search_arg where
  "pagedNotSupported = Err (PagedResultsError ''paged search not supported by server'')"

definition pauseArg :: "bool \<Rightarrow> resume" where
  "pauseArg pause = (if pause then ResumeNoop else ResumeFalsy)"

definition PageResult_onEnd ::
  "search_result \<Rightarrow> bool \<Rightarrow> control \<Rightarrow> message \<Rightarrow> page_outcome" where
  "PageResult_onEnd em pause ctl msg =
     (case find (\<lambda>c. ctype c = PagedResultsControl_OID) (controls msg) of
        None \<Rightarrow>
          (case emit em (''page'', Page msg (pauseArg pause)) of
             (em1, Some x) \<Rightarrow>
               \<lparr>po_emitter = em1, po_control = ctl, po_nextPage = False, po_thrown = Some x\<rparr>
           | (em1, None) \<Rightarrow>
               if length (listenersOf em1 ''pageError'') > 0
               then (case emits em1 [(''pageError'', pagedNotSupported), (''end'', Msg msg)] of
                       (em2, x) \<Rightarrow>
                         \<lparr>po_emitter = em2, po_control = ctl, po_nextPage = False, po_thrown = x\<rparr>)
               else (case emit em1 (''error'', pagedNotSupported) of
                       (em2, x) \<Rightarrow>
                         \<lparr>po_emitter = em2, po_control = ctl, po_nextPage = False, po_thrown = x\<rparr>))
      | Some pageControl \<Rightarrow>
          if cookie pageControl = []
          then (case emits em [(''page'', Page msg (pauseArg pause)), (''end'', Msg msg)] of
                  (em1, x) \<Rightarrow>
                    \<lparr>po_emitter = em1, po_control = ctl, po_nextPage = False, po_thrown = x\<rparr>)
          else
            (let ctl1 = Control (ctype ctl) (cookie pageControl)
             in if pause
                then (case emit em (''page'', Page msg ResumeNextPage) of
                        (em1, x) \<Rightarrow>
                          \<lparr>po_emitter = em1, po_control = ctl1, po_nextPage = False,
                           po_thrown = x\<rparr>)
                else (case emit em (''page'', Page msg ResumeMissing) of
                        (em1, Some x) \<Rightarrow>
                          \<lparr>po_emitter = em1, po_control = ctl1, po_nextPage = False,
                           po_thrown = Some x\<rparr>
                      | (em1, None) \<Rightarrow>
                          \<lparr>po_emitter = em1, po_control = ctl1, po_nextPage = True,
                           po_thrown = None\<rparr>)))"

text \<open>\<open>resumeNextPage(stop)\<close>, the function a paused page hands to its listener.\<close>

definition resumeNextPage ::
  "search_result \<Rightarrow> control \<Rightarrow> message \<Rightarrow> bool \<Rightarrow> page_outcome" where
  "resumeNextPage em ctl msg stop =
     (if stop
      then (case emit em (''end'', Msg msg) of
              (em1, x) \<Rightarrow>
                \<lparr>po_emitter = em1, po_control = ctl, po_nextPage = False, po_thrown = x\<rparr>)
      else \<lparr>po_emitter = em, po_control = ctl, po_nextPage = True, po_thrown = None\<rparr>)"


section \<open>Building requests (lib/client/client.js)\<close>

subsection \<open>ensureDN\<close>




subsection \<open>JavaScript values of a modification\<close>

datatype jsval =
    JUndefined
  | JStr string
  | JNum nat
  | JArr "jsval list"
  | JObj "(string \<times> jsval) list"

fun dec :: "nat \<Rightarrow> string" where
  "dec n = (if n < 10 then [''0123456789'' ! n]
            else dec (n div 10) @ [''0123456789'' ! (n mod 10)])"

declare dec.simps [simp del]

text \<open>
  \<open>String(v)\<close>, which a computed property key \<^verbatim>\<open>{ [k]: ... }\<close> applies to \<open>k\<close>: an array
  is its elements joined by commas, an \<open>undefined\<close> element giving the empty string.
\<close>

fun js_toString :: "jsval \<Rightarrow> string"
  and js_join :: "jsval list \<Rightarrow> string" where
  "js_toString JUndefined = ''undefined''"
| "js_toString (JStr s) = s"
| "js_toString (JNum n) = dec n"
| "js_toString (JArr xs) = js_join xs"
| "js_toString (JObj kvs) = ''[object Object]''"
| "js_join [] = ''''"
| "js_join [x] = (if x = JUndefined then '''' else js_toString x)"
| "js_join (x # y # ys) =
     (if x = JUndefined then '''' else js_toString x) @ '','' @ js_join (y # ys)"

text \<open>\<open>Object.entries\<close>: the own enumerable properties, for an array its indices.\<close>

fun own_entries :: "jsval \<Rightarrow> (string \<times> jsval) list" where
  "own_entries (JObj kvs) = kvs"
| "own_entries (JArr xs) = zip (map dec [0..<length xs]) xs"
| "own_entries v = []"

fun typeof_object :: "jsval \<Rightarrow> bool" where
  "typeof_object (JObj kvs) = True"
| "typeof_object (JArr xs) = True"
| "typeof_object v = False"

fun typeof_string :: "jsval option \<Rightarrow> bool" where
  "typeof_string (Some (JStr s)) = True"
| "typeof_string v = False"

fun isArray :: "jsval option \<Rightarrow> bool" where
  "isArray (Some (JArr xs)) = True"
| "isArray v = False"

text \<open>A string property that may be absent is truthy when present and not empty.\<close>

definition truthy :: "string option \<Rightarrow> bool" where
  "truthy s \<longleftrightarrow> s \<noteq> None \<and> s \<noteq> Some ''''"

subsection \<open>modify: itemizeChanges and changesFromObject\<close>

text \<open>
  A plain object \<open>c\<close> has the properties \<open>c.operation\<close>, \<open>c.type\<close> and \<open>c.modification\<close>
  (\<open>c_operation\<close>, \<open>c_type\<close>, \<open>c_modification\<close>). The class \<open>Change\<close> is outside the
  client: a \<open>change\<close> is the object handed to \<^verbatim>\<open>new Change(...)\<close>.
\<close>

record plain_change =
  c_operation :: "string option"
  c_type :: "string option"
  c_modification :: jsval

record change =
  operation :: "string option"
  modification :: jsval

text \<open>
  The last branch is
  \<^verbatim>\<open>Object.entries(c.modification).map(function (k, val) { ... { [k]: val } ... })\<close>.
  \<open>map\<close> calls its function with the element and the index: \<open>k\<close> is the pair
  \<open>[name, values]\<close>, an array, and \<open>val\<close> is the position of the pair.
\<close>

definition changesFromObject :: "plain_change \<Rightarrow> string js_exn + change list" where
  "changesFromObject c =
     (if \<not> truthy (c_operation c) \<and> \<not> truthy (c_type c)
      then Inl (Thrown ''change.operation required'')
      else if \<not> typeof_object (c_modification c)
      then Inl (Thrown ''change.modification (object) required'')
      else if length (own_entries (c_modification c)) = 2
              \<and> typeof_string (map_of (own_entries (c_modification c)) ''type'')
              \<and> isArray (map_of (own_entries (c_modification c)) ''vals'')
      then Inr [\<lparr>operation = c_type c, modification = c_modification c\<rparr>]
      else Inr (map (\<lambda>(val, k).
                  \<lparr>operation = (if truthy (c_operation c) then c_operation c else c_type c),
                   modification = JObj [(js_toString (JArr [JStr (fst k), snd k]), JNum val)]\<rparr>)
                (enumerate 0 (own_entries (c_modification c)))))"

datatype change_item = IsChange change | PlainObject plain_change

datatype change_arg = One change_item | Many "change_item list"

fun flatMapChanges :: "change_item list \<Rightarrow> string js_exn + change list" where
  "flatMapChanges [] = Inr []"
| "flatMapChanges (IsChange c # cs) =
     (case flatMapChanges cs of Inl x \<Rightarrow> Inl x | Inr rest \<Rightarrow> Inr (c # rest))"
| "flatMapChanges (PlainObject p # cs) =
     (case changesFromObject p of
        Inl x \<Rightarrow> Inl x
      | Inr these \<Rightarrow>
          (case flatMapChanges cs of Inl x \<Rightarrow> Inl x | Inr rest \<Rightarrow> Inr (these @ rest)))"

fun itemizeChanges :: "change_arg \<Rightarrow> string js_exn + change list" where
  "itemizeChanges (One (IsChange c)) = Inr [c]"
| "itemizeChanges (Many cs) = flatMapChanges cs"
| "itemizeChanges (One (PlainObject p)) = changesFromObject p"

subsection \<open>The requests of add, compare, del and modify\<close>






section \<open>The client (lib/client/client.js)\<close>

subsection \<open>Requests, handlers and what the client does to the outside\<close>

datatype req_kind =
    AbandonReq nat
  | UnbindReq
  | ExtendedReq string
  | OtherReq string

record request =
  kind :: req_kind
  messageID :: "nat option"

text \<open>\<open>expect\<close> is the string \<open>'abandon'\<close>, the string \<open>'unbind'\<close>, or a list of result codes.\<close>

datatype expect = ExpectAbandon | ExpectUnbind | ExpectCodes "nat list"

text \<open>
  A callback is the caller's function (\<open>UserCallback\<close>), the one \<open>getPromiseCallback\<close>
  makes when the caller gives none, or one of the closures the client wraps around
  either: the \<open>onSent\<close> of a search, of a paged search (over the SearchResult of the
  search, a number names it) and of \<open>starttls\<close>.
\<close>

datatype callback =
    UserCallback nat
  | PromiseCallback
  | SearchOnSent callback
  | PagedOnSent nat callback
  | StartTlsOnSent callback

text \<open>
  The emitter of a request is the SearchResult of a search (\<open>OnStream\<close>), the PageResult
  of a paged search, or the emitter \<open>starttls\<close> makes. A PageResult closes over the
  SearchResult it relays to, \<open>options.pagePause\<close>, and \<open>pagedSearch\<close>, which closes over
  the request and the caller's callback. The emitter of \<open>starttls\<close> closes over the
  caller's callback.
\<close>

datatype req_emitter =
    OnStream nat
  | OnPage nat bool request callback
  | OnStartTls callback

datatype data = NoData | MsgData message | ErrData ldap_error | ReqData request

text \<open>
  The arguments of a call of a callback: \<open>callback(null)\<close> or \<open>callback()\<close>,
  \<open>callback(err)\<close>, \<open>callback(err)\<close> with the error caught from \<open>socket.write\<close>,
  \<open>callback(null, data)\<close>, \<open>callback(null, emitter, req)\<close>, and
  \<open>callback(err, emitter)\<close> with the first argument as in one of the first three.
\<close>

datatype cb_args =
    CbNull
  | CbError ldap_error
  | CbThrown
  | CbResult data
  | CbSent req_emitter request
  | CbSearch cb_args req_emitter

text \<open>
  The handler handed to \<open>tracker.track\<close> is the closure \<open>onMessage\<close>; it is the request,
  \<open>expect\<close>, the emitter and the callback it closes over. A handler is called with a
  parsed message or with an error.
\<close>

record handler =
  h_req :: request
  h_expect :: expect
  h_emitter :: "req_emitter option"
  h_callback :: callback

datatype reply = Reply message | Failure ldap_error

text \<open>
  What the client does, in order: the events it emits on itself, the calls of
  callbacks, the emits on a request's emitter, the calls of tracked handlers, the calls
  of \<open>connect()\<close>, and the start of the connect loop (\<open>retry.backoff()\<close> at the end of
  \<open>connect\<close>).
\<close>

datatype effect =
    ClientEvent string data
  | CallbackCalled callback cb_args
  | EmitterEvent req_emitter string data
  | HandlerCalled nat reply
  | ConnectCalled
  | ConnectLoop

subsection \<open>Message tracker\<close>

text \<open>
  Modelled from the spec: the message tracker of \<open>lib/client/message-tracker\<close>, which is
  not among the sources. The spec (3, 4.1): a tracker has an id, a mapping from
  messageID to the pending request (at most one handler per messageID), the next id, and
  the set of abandoned ids. The pending requests are kept in the order they were
  tracked in.
\<close>

record tracker =
  tracker_id :: string
  pending :: "(nat \<times> handler) list"
  nextID :: nat
  abandonedIDs :: "nat list"

text \<open>
  Modelled from the spec: \<open>MAX_MSGID\<close> of \<open>lib/client/constants\<close>; the messageIDs are 1
  to \<open>2^31 - 1\<close>.
\<close>

definition MAX_MSGID :: nat where
  "MAX_MSGID = 2 ^ 31 - 1"

text \<open>Modelled from the spec: a new tracker has nothing pending and nothing abandoned.\<close>

definition messageTrackerFactory :: "string \<Rightarrow> tracker" where
  "messageTrackerFactory name =
     \<lparr>tracker_id = name, pending = [], nextID = 1, abandonedIDs = []\<rparr>"

text \<open>Modelled from the spec: the id after \<open>i\<close>, wrapping from \<open>2^31 - 1\<close> to 1.\<close>

definition succ_id :: "nat \<Rightarrow> nat" where
  "succ_id i = (if i \<ge> MAX_MSGID then 1 else i + 1)"

text \<open>
  Modelled from the spec: the next free id from \<open>i\<close> on, skipping the ids in use; with
  \<open>n\<close> ids in use, \<open>n\<close> skips are enough.
\<close>

fun free_id :: "nat \<Rightarrow> nat list \<Rightarrow> nat \<Rightarrow> nat" where
  "free_id 0 used i = i"
| "free_id (Suc fuel) used i = (if i \<in> set used then free_id fuel used (succ_id i) else i)"

text \<open>Modelled from the spec: one handler per messageID; storing under a pending id replaces.\<close>

fun store :: "nat \<Rightarrow> handler \<Rightarrow> (nat \<times> handler) list \<Rightarrow> (nat \<times> handler) list" where
  "store i h [] = [(i, h)]"
| "store i h (p # ps) = (if fst p = i then (i, h) # ps else p # store i h ps)"

text \<open>
  Modelled from the spec: \<open>track(request, handler)\<close> assigns the next free messageID
  (skipping any value pending or abandoned), stamps it on the request and stores the
  pending request. The handler is \<open>onMessage\<close>, given here by what it closes over.
\<close>

definition track ::
  "tracker \<Rightarrow> request \<Rightarrow> expect \<Rightarrow> req_emitter option \<Rightarrow> callback \<Rightarrow> tracker \<times> request" where
  "track t req exp em cb =
     (let used = map fst (pending t) @ abandonedIDs t;
          i = free_id (length used) used (nextID t);
          req1 = req\<lparr>messageID := Some i\<rparr>;
          h = \<lparr>h_req = req1, h_expect = exp, h_emitter = em, h_callback = cb\<rparr>
      in (t\<lparr>pending := store i h (pending t), nextID := succ_id i\<rparr>, req1))"

text \<open>Modelled from the spec: \<open>fetch(id)\<close> returns the handler registered for id without removing it.\<close>

definition fetch :: "tracker \<Rightarrow> nat \<Rightarrow> handler option" where
  "fetch t i = map_of (pending t) i"

text \<open>Modelled from the spec: \<open>remove(id)\<close> drops the pending request.\<close>

definition remove :: "tracker \<Rightarrow> nat \<Rightarrow> tracker" where
  "remove t i = t\<lparr>pending := filter (\<lambda>p. fst p \<noteq> i) (pending t)\<rparr>"

text \<open>
  Modelled from the spec: \<open>abandon(id)\<close> records id among the abandoned ids and removes
  the pending entry.
\<close>

definition abandon :: "tracker \<Rightarrow> nat \<Rightarrow> tracker" where
  "abandon t i =
     t\<lparr>pending := filter (\<lambda>p. fst p \<noteq> i) (pending t), abandonedIDs := abandonedIDs t @ [i]\<rparr>"

subsection \<open>Request queue\<close>

text \<open>
  The factory, \<open>freeze\<close> and \<open>thaw\<close> are in \<open>lib/client/request-queue/index.js\<close>; a
  size of \<open>None\<close> is \<open>Infinity\<close>. An entry is the four arguments of \<open>enqueue\<close>.
\<close>

record q_entry =
  q_req :: request
  q_expect :: expect
  q_emitter :: "req_emitter option"
  q_callback :: callback

record queue =
  size :: "nat option"
  items :: "q_entry list"
  frozen :: bool

definition requestQueueFactory :: "nat \<Rightarrow> queue" where
  "requestQueueFactory n = \<lparr>size = (if n > 0 then Some n else None), items = [], frozen = False\<rparr>"

definition freeze :: "queue \<Rightarrow> queue" where
  "freeze q = q\<lparr>frozen := True\<rparr>"

definition thaw :: "queue \<Rightarrow> queue" where
  "thaw q = q\<lparr>frozen := False\<rparr>"

text \<open>
  Modelled from the spec: \<open>enqueue\<close>, whose file is not among the sources. The spec
  (4.2): \<open>enqueue(entry)\<close> is false if the queue is frozen or holds \<open>size\<close> entries;
  otherwise the entry is appended.
\<close>

definition enqueue :: "queue \<Rightarrow> q_entry \<Rightarrow> queue \<times> bool" where
  "enqueue q e =
     (if frozen q \<or> (case size q of None \<Rightarrow> False | Some n \<Rightarrow> length (items q) \<ge> n)
      then (q, False)
      else (q\<lparr>items := items q @ [e]\<rparr>, True))"

subsection \<open>Socket and client state\<close>

text \<open>
  Of the socket the client uses: \<open>writable\<close>, \<open>stuffed\<close>, \<open>encrypted\<close>, the
  \<open>unbindMessageID\<close> it stores on it, its \<open>data\<close> and \<open>error\<close> listeners, and the calls
  \<open>write\<close>, \<open>end\<close> and \<open>destroy\<close>. \<open>writes\<close> are the requests handed to \<open>write\<close>;
  \<open>unflushed\<close> are the writes whose completion callback \<open>onSent\<close> has not run yet.
\<close>

datatype sock_listener = OnData | Bail | OnSocketError | OtherListener nat

record socket =
  writable :: bool
  stuffed :: bool
  encrypted :: bool
  unbindMessageID :: "nat option"
  dataListeners :: "sock_listener list"
  errorListeners :: "sock_listener list"
  writes :: "request list"
  unflushed :: "q_entry list"
  ended :: bool
  sock_destroyed :: bool

text \<open>
  What a search in progress owns: its SearchResult, the paged-results control it shares
  with its PageResult, and whether its callback, wrapped in \<open>once\<close>, has been called.
  \<open>newSearch\<close> is the state \<open>search\<close> leaves them in.
\<close>

record search =
  s_stream :: search_result
  s_control :: control
  s_called :: bool

definition newSearch :: search where
  "newSearch =
     \<lparr>s_stream = SearchResult, s_control = Control PagedResultsControl_OID [],
      s_called = False\<rparr>"

text \<open>
  The client: its options (\<open>timeout\<close>, \<open>idleTimeout\<close>, \<open>reconnect\<close>), its flags, the
  socket and the tracker of the current connection (\<open>None\<close> is \<open>null\<close>), the queue, the
  request timers that are armed (by messageID), whether the idle timer is armed, the
  searches that have left the state \<open>newSearch\<close>, the TLS handshake that \<open>starttls\<close> has
  started (the \<open>data\<close> listeners it took from the socket, and the caller's callback), and
  the effects so far. The model covers one connection: the socket and the tracker a
  closure of \<open>_sendRequest\<close> captured are the client's.
\<close>

record client =
  timeout :: nat
  idleTimeout :: nat
  reconnect :: bool
  connected :: bool
  connecting :: bool
  destroyed :: bool
  starttls_phase :: bool
  socket :: "socket option"
  tracker :: "tracker option"
  queue :: queue
  requestTimers :: "nat list"
  idleTimer :: bool
  searches :: "(nat \<times> search) list"
  handshake :: "(sock_listener list \<times> callback) option"
  effects :: "effect list"

definition effect :: "client \<Rightarrow> effect \<Rightarrow> client" where
  "effect c e = c\<lparr>effects := effects c @ [e]\<rparr>"

subsection \<open>connect\<close>

text \<open>
  \<open>connect\<close> returns at once when the client is connected, connecting or destroyed;
  otherwise it sets \<open>connecting\<close> and starts the backoff loop, which opens the socket
  later.
\<close>

definition connect :: "client \<Rightarrow> client" where
  "connect c =
     (let c0 = effect c ConnectCalled
      in if connected c0 \<or> connecting c0 then c0
         else if destroyed c0 then c0
         else effect (c0\<lparr>connecting := True\<rparr>) ConnectLoop)"

subsection \<open>connect: setupResponseTracker\<close>

text \<open>
  \<open>setupResponseTracker\<close> makes the tracker of the connection and puts the listener
  \<open>onData\<close> on the socket, which feeds the parser. Every socket the client uses has gone
  through it (\<open>onConnected\<close>).
\<close>

definition setupResponseTracker :: "socket \<Rightarrow> string \<Rightarrow> socket \<times> tracker" where
  "setupResponseTracker s serverDescription =
     (s\<lparr>dataListeners := dataListeners s @ [OnData]\<rparr>,
      messageTrackerFactory serverDescription)"

subsection \<open>starttls\<close>

text \<open>
  \<open>onStartTlsReply\<close>, the listener of \<open>end\<close> on the emitter of the StartTLS request: the
  server has accepted the extended operation. It saves the \<open>data\<close> listeners of the
  socket, removes them, and starts the handshake with \<open>tls.connect\<close>.
\<close>

definition onStartTlsReply :: "client \<Rightarrow> ldap_error js_exn + client \<times> sock_listener list" where
  "onStartTlsReply c =
     (case socket c of
        None \<Rightarrow> Inl TypeError
      | Some s \<Rightarrow> Inr (c\<lparr>socket := Some (s\<lparr>dataListeners := []\<rparr>)\<rparr>, dataListeners s))"

text \<open>
  \<^verbatim>\<open>xs.forEach(function (listener) { this.on(name, listener) })\<close>: the function handed to
  \<open>forEach\<close> is a function expression and \<open>forEach\<close> gets no \<open>thisArg\<close>, so in this strict
  file \<open>this\<close> is \<open>undefined\<close> inside it, not the TLS socket of the enclosing callback.
  The first call throws at \<open>this.on\<close>; over an empty array the function is not called.
\<close>

definition forEachOnThis :: "sock_listener list \<Rightarrow> ldap_error js_exn + unit" where
  "forEachOnThis xs = (if xs = [] then Inr () else Inl TypeError)"

text \<open>
  \<open>onSecureConnection\<close>, the callback of \<open>tls.connect\<close>: the handshake has completed.
  \<open>tlsSocket\<close> is the new socket, \<open>this\<close> of the callback; \<open>saved\<close> are the \<open>data\<close>
  listeners \<open>onStartTlsReply\<close> took from the TCP socket.
\<close>

definition onSecureConnection ::
  "client \<Rightarrow> sock_listener list \<Rightarrow> socket \<Rightarrow> callback \<Rightarrow> ldap_error js_exn + client" where
  "onSecureConnection c saved tlsSocket cb =
     (case forEachOnThis saved of
        Inl x \<Rightarrow> Inl x
      | Inr u \<Rightarrow>
          (case socket c of
             None \<Rightarrow> Inl TypeError
           | Some s \<Rightarrow>
               (case forEachOnThis (errorListeners s) of
                  Inl x \<Rightarrow> Inl x
                | Inr u \<Rightarrow>
                    Inr (effect (c\<lparr>socket := Some (tlsSocket\<lparr>errorListeners := []\<rparr>),
                                    starttls_phase := False\<rparr>)
                           (CallbackCalled cb CbNull)))))"

text \<open>
  \<open>onSecureConnectError\<close>, the listener of \<open>error\<close> on the new socket: the handshake has
  failed. Here the listeners go back with \<open>socket.on\<close>, on the TCP socket.
\<close>

definition onSecureConnectError ::
  "client \<Rightarrow> sock_listener list \<Rightarrow> ldap_error \<Rightarrow> callback \<Rightarrow> client" where
  "onSecureConnectError c saved err cb =
     effect (c\<lparr>socket := map_option (\<lambda>s. s\<lparr>dataListeners := dataListeners s @ saved\<rparr>) (socket c),
               starttls_phase := False\<rparr>)
       (CallbackCalled cb (CbError err))"

text \<open>
  A StartTLS whose request is accepted and whose handshake completes: the reply handler,
  then the callback of \<open>tls.connect\<close>.
\<close>

definition starttlsSucceeds ::
  "client \<Rightarrow> socket \<Rightarrow> callback \<Rightarrow> ldap_error js_exn + client" where
  "starttlsSucceeds c tlsSocket cb =
     (case onStartTlsReply c of
        Inl x \<Rightarrow> Inl x
      | Inr (c1, saved) \<Rightarrow> onSecureConnection c1 saved tlsSocket cb)"

subsection \<open>Callbacks and the SearchResult of a search\<close>

text \<open>
  A function of the client returns the client it leaves behind (\<open>Inr\<close>), or it throws:
  \<open>Inl (x, c)\<close> is the exception \<open>x\<close> and the client at the moment of the throw, which is
  what the statements before the throw have made of it. \<open>stateOf\<close> is the client
  afterwards, either way.
\<close>

type_synonym outcome = "search_arg js_exn \<times> client + client"

definition stateOf :: "outcome \<Rightarrow> client" where
  "stateOf r = (case r of Inl (x, c) \<Rightarrow> c | Inr c \<Rightarrow> c)"

definition searchOf :: "client \<Rightarrow> nat \<Rightarrow> search" where
  "searchOf c k = (case map_of (searches c) k of None \<Rightarrow> newSearch | Some s \<Rightarrow> s)"

definition setSearch :: "client \<Rightarrow> nat \<Rightarrow> search \<Rightarrow> client" where
  "setSearch c k s = c\<lparr>searches := (k, s) # filter (\<lambda>p. fst p \<noteq> k) (searches c)\<rparr>"

text \<open>\<open>searchResult.emit(...)\<close> on the SearchResult \<open>k\<close>: the emit of the CorkedEmitter.\<close>

definition emitOn :: "client \<Rightarrow> nat \<Rightarrow> string \<times> search_arg \<Rightarrow> outcome" where
  "emitOn c k ev =
     (case emit (s_stream (searchOf c k)) ev of
        (st, thrown) \<Rightarrow>
          (let c1 = setSearch c k ((searchOf c k)\<lparr>s_stream := st\<rparr>)
           in case thrown of None \<Rightarrow> Inr c1 | Some x \<Rightarrow> Inl (x, c1)))"

definition the_id :: "request \<Rightarrow> nat" where
  "the_id req = (case messageID req of None \<Rightarrow> 0 | Some i \<Rightarrow> i)"

fun toArg :: "data \<Rightarrow> search_arg" where
  "toArg NoData = NoArg"
| "toArg (MsgData m) = Msg m"
| "toArg (ErrData e) = Err e"
| "toArg (ReqData r) = Req (the_id r)"

text \<open>
  Of the arguments of a call: the error in the first place, if there is one (the error
  caught from \<open>socket.write\<close> on a \<open>null\<close> socket is a TypeError); the first argument
  alone; and the request in the third place.
\<close>

fun errOf :: "cb_args \<Rightarrow> ldap_error option" where
  "errOf (CbError e) = Some e"
| "errOf CbThrown = Some (OtherError ''TypeError'')"
| "errOf (CbSearch a em) = errOf a"
| "errOf a = None"

fun errArg :: "cb_args \<Rightarrow> cb_args" where
  "errArg (CbError e) = CbError e"
| "errArg CbThrown = CbThrown"
| "errArg (CbSearch a em) = errArg a"
| "errArg a = CbNull"

fun requestArg :: "cb_args \<Rightarrow> search_arg" where
  "requestArg (CbSent em req) = Req (the_id req)"
| "requestArg a = NoArg"

text \<open>
  \<^verbatim>\<open>emitter.emit('searchRequest', request)\<close> in the \<open>onSent\<close> of a search. On a
  SearchResult it is the emit of the CorkedEmitter. A PageResult and the emitter of
  \<open>starttls\<close> are plain EventEmitters without a listener of \<open>searchRequest\<close>: nothing
  happens.
\<close>

definition emitSearchRequest :: "client \<Rightarrow> req_emitter \<Rightarrow> search_arg \<Rightarrow> outcome" where
  "emitSearchRequest c em arg =
     (case em of
        OnStream k \<Rightarrow> emitOn c k (''searchRequest'', arg)
      | _ \<Rightarrow> Inr c)"

text \<open>
  A call of a callback: the call is recorded, then the callback runs. The caller's own
  function and the promise callback return; what they do is outside the client.

  \<^item> The \<open>onSent\<close> of a search is
    \<^verbatim>\<open>function onSent (err, emitter, request) { callback(err, emitter); emitter.emit('searchRequest', request) }\<close>.
    Called with an error alone (or with a result), \<open>emitter\<close> is \<open>undefined\<close> (or not an
    emitter) and the second statement throws a TypeError, after the caller's callback
    has run.
  \<^item> The \<open>onSent\<close> of a paged search calls the caller's callback once, with the
    SearchResult; then it emits \<open>error\<close> or \<open>searchRequest\<close> on the SearchResult.
  \<^item> The \<open>onSent\<close> of \<open>starttls\<close> does something only with an error: it deletes the
    marker of the phase and calls the caller's callback.
\<close>

fun call :: "client \<Rightarrow> callback \<Rightarrow> cb_args \<Rightarrow> outcome" where
  "call c (UserCallback n) a = Inr (effect c (CallbackCalled (UserCallback n) a))"
| "call c PromiseCallback a = Inr (effect c (CallbackCalled PromiseCallback a))"
| "call c (SearchOnSent cb) (CbSent em req) =
     (case call (effect c (CallbackCalled (SearchOnSent cb) (CbSent em req))) cb
             (CbSearch CbNull em) of
        Inl x \<Rightarrow> Inl x
      | Inr c1 \<Rightarrow> emitSearchRequest c1 em (Req (the_id req)))"
| "call c (SearchOnSent cb) (CbSearch a em) =
     (case call (effect c (CallbackCalled (SearchOnSent cb) (CbSearch a em))) cb
             (CbSearch a em) of
        Inl x \<Rightarrow> Inl x
      | Inr c1 \<Rightarrow> emitSearchRequest c1 em NoArg)"
| "call c (SearchOnSent cb) a =
     (case call (effect c (CallbackCalled (SearchOnSent cb) a)) cb a of
        Inl x \<Rightarrow> Inl x
      | Inr c1 \<Rightarrow> Inl (TypeError, c1))"
| "call c (PagedOnSent k cb) a =
     (case (if s_called (searchOf c k)
            then Inr (effect c (CallbackCalled (PagedOnSent k cb) a))
            else call (setSearch (effect c (CallbackCalled (PagedOnSent k cb) a)) k
                         ((searchOf c k)\<lparr>s_called := True\<rparr>))
                   cb (CbSearch (errArg a) (OnStream k))) of
        Inl x \<Rightarrow> Inl x
      | Inr c1 \<Rightarrow>
          (case errOf a of
             Some e \<Rightarrow> emitOn c1 k (''error'', Err e)
           | None \<Rightarrow> emitOn c1 k (''searchRequest'', requestArg a)))"
| "call c (StartTlsOnSent cb) a =
     (case errOf a of
        Some e \<Rightarrow>
          call ((effect c (CallbackCalled (StartTlsOnSent cb) a))\<lparr>starttls_phase := False\<rparr>)
            cb (errArg a)
      | None \<Rightarrow> Inr (effect c (CallbackCalled (StartTlsOnSent cb) a)))"

subsection \<open>_sendRequest and _dispatchRequest\<close>

definition clearRequestTimer :: "client \<Rightarrow> nat \<Rightarrow> client" where
  "clearRequestTimer c i = c\<lparr>requestTimers := filter (\<lambda>j. j \<noteq> i) (requestTimers c)\<rparr>"

text \<open>
  \<open>_sendRequest\<close> clears the idle timer, arms the request timer when \<open>timeout\<close> is not
  zero, tracks the request and writes it. \<open>tracker.track\<close> on a \<open>null\<close> tracker throws;
  \<open>socket.write\<close> is inside \<open>try\<close>, so on a \<open>null\<close> socket the error goes to the callback.
\<close>

definition sendRequest ::
  "client \<Rightarrow> request \<Rightarrow> expect \<Rightarrow> req_emitter option \<Rightarrow> callback \<Rightarrow> outcome" where
  "sendRequest c req exp em cb =
     (case tracker c of
        None \<Rightarrow> Inl (TypeError, c\<lparr>idleTimer := False\<rparr>)
      | Some t \<Rightarrow>
          (let (t1, req1) = track t req exp em cb;
               c1 = c\<lparr>idleTimer := False,
                      requestTimers := (if timeout c > 0
                                        then requestTimers c @ [the_id req1]
                                        else requestTimers c),
                      tracker := Some t1\<rparr>
           in case socket c1 of
                None \<Rightarrow> call (clearRequestTimer c1 (the_id req1)) cb CbThrown
              | Some s \<Rightarrow>
                  Inr (c1\<lparr>socket := Some (s\<lparr>writes := writes s @ [req1],
                         unflushed := unflushed s @
                           [\<lparr>q_req = req1, q_expect = exp, q_emitter = em, q_callback = cb\<rparr>]\<rparr>)\<rparr>)))"

text \<open>\<open>onSent\<close>, the completion callback of the write.\<close>

definition onSent :: "client \<Rightarrow> q_entry \<Rightarrow> outcome" where
  "onSent c e =
     (case q_expect e of
        ExpectAbandon \<Rightarrow>
          call (c\<lparr>tracker := map_option
                    (\<lambda>t. remove (case kind (q_req e) of AbandonReq a \<Rightarrow> abandon t a | _ \<Rightarrow> t)
                            (the_id (q_req e)))
                    (tracker c)\<rparr>)
            (q_callback e) CbNull
      | ExpectUnbind \<Rightarrow>
          Inr (c\<lparr>socket := map_option
               (\<lambda>s. s\<lparr>unbindMessageID := messageID (q_req e), errorListeners := [],
                       ended := True\<rparr>)
               (socket c)\<rparr>)
      | ExpectCodes cs \<Rightarrow>
          (case q_emitter e of
             Some em \<Rightarrow> call c (q_callback e) (CbSent em (q_req e))
           | None \<Rightarrow> Inr c))"

text \<open>
  Modelled from the spec: \<open>flush\<close>, whose file is not among the sources (its test is).
  The spec (4.2): \<open>flush(sink)\<close> drains all entries in FIFO order into \<open>sink(entry)\<close>; the
  queue is empty afterwards. A sink that throws ends the drain.
\<close>

fun drain :: "(client \<Rightarrow> q_entry \<Rightarrow> outcome) \<Rightarrow> client \<Rightarrow> q_entry list \<Rightarrow> outcome" where
  "drain sink c [] = Inr c"
| "drain sink c (e # es) =
     (case sink c e of Inl x \<Rightarrow> Inl x | Inr c1 \<Rightarrow> drain sink c1 es)"

text \<open>Modelled from the spec: \<open>flush(sink)\<close>, as above, on the queue of the client.\<close>

definition flush :: "(client \<Rightarrow> q_entry \<Rightarrow> outcome) \<Rightarrow> client \<Rightarrow> outcome" where
  "flush sink c = drain sink (c\<lparr>queue := (queue c)\<lparr>items := []\<rparr>\<rparr>) (items (queue c))"

definition sendEntry :: "client \<Rightarrow> q_entry \<Rightarrow> outcome" where
  "sendEntry c e = sendRequest c (q_req e) (q_expect e) (q_emitter e) (q_callback e)"

definition dispatchRequest ::
  "client \<Rightarrow> request \<Rightarrow> expect \<Rightarrow> req_emitter option \<Rightarrow> callback \<Rightarrow> outcome" where
  "dispatchRequest c req exp em cb =
     (if destroyed c
      then call c cb (CbError (ConnectionError ''client destroyed''))
      else if connecting c \<and> (case socket c of None \<Rightarrow> False | Some s \<Rightarrow> writable s)
      then sendRequest c req exp em cb
      else if socket c = None \<or> \<not> connected c
              \<or> (case socket c of None \<Rightarrow> False | Some s \<Rightarrow> stuffed s)
      then (case enqueue (queue c)
                   \<lparr>q_req = req, q_expect = exp, q_emitter = em, q_callback = cb\<rparr> of
              (q1, False) \<Rightarrow>
                call c cb (CbError (ConnectionError ''request queue unavailable''))
            | (q1, True) \<Rightarrow>
                (let c1 = c\<lparr>queue := q1\<rparr>
                 in if connected c1 \<or> connecting c1 then Inr c1
                    else if reconnect c1 then Inr (connect c1)
                    else call c1 cb (CbError (ConnectionError ''connection unavailable''))))
      else (case flush sendEntry c of
              Inl x \<Rightarrow> Inl x
            | Inr c1 \<Rightarrow> sendRequest c1 req exp em cb))"

subsection \<open>The emitter of a request\<close>

text \<open>
  \<open>pagedSearch(emitter)\<close> of \<open>search\<close>, with the PageResult as the emitter: the request
  of the next page is dispatched, expecting the result code 0 (\<open>LDAP_SUCCESS\<close>).
\<close>

definition pagedSearch :: "client \<Rightarrow> nat \<Rightarrow> bool \<Rightarrow> request \<Rightarrow> callback \<Rightarrow> outcome" where
  "pagedSearch c k pause req cb =
     dispatchRequest c req (ExpectCodes [0]) (Some (OnPage k pause req cb)) (PagedOnSent k cb)"

text \<open>
  The listener of \<open>end\<close> of a PageResult, on the SearchResult and the control of its
  search. \<open>msg.controls\<close> throws when the event carries no message.
\<close>

definition pageEnd ::
  "client \<Rightarrow> nat \<Rightarrow> bool \<Rightarrow> request \<Rightarrow> callback \<Rightarrow> data \<Rightarrow> outcome" where
  "pageEnd c k pause req cb d =
     (case d of
        MsgData msg \<Rightarrow>
          (let po = PageResult_onEnd (s_stream (searchOf c k)) pause (s_control (searchOf c k)) msg;
               c1 = setSearch c k
                      ((searchOf c k)\<lparr>s_stream := po_emitter po, s_control := po_control po\<rparr>)
           in case po_thrown po of
                Some x \<Rightarrow> Inl (x, c1)
              | None \<Rightarrow> if po_nextPage po then pagedSearch c1 k pause req cb else Inr c1)
      | _ \<Rightarrow> Inl (TypeError, c))"

text \<open>\<open>callback(data)\<close> passes the error alone, \<open>callback(null, data)\<close> the result.\<close>

fun errorArgs :: "data \<Rightarrow> cb_args" where
  "errorArgs (ErrData e) = CbError e"
| "errorArgs d = CbResult d"

text \<open>
  \<open>emitter.emit(event, data)\<close> on the emitter of a request.
  \<^item> A SearchResult: the emit of the CorkedEmitter.
  \<^item> A PageResult relays \<open>error\<close>, \<open>searchEntry\<close> and \<open>searchReference\<close> to the
    SearchResult and handles \<open>end\<close>; it has no other listener.
  \<^item> The emitter of \<open>starttls\<close> has the listeners \<open>onStartTlsError\<close> of \<open>error\<close> and
    \<open>onStartTlsReply\<close> of \<open>end\<close>; after the latter the handshake is under way.
\<close>

definition emitTo :: "client \<Rightarrow> req_emitter \<Rightarrow> string \<Rightarrow> data \<Rightarrow> outcome" where
  "emitTo c em event d =
     (case em of
        OnStream k \<Rightarrow> emitOn c k (event, toArg d)
      | OnPage k pause req cb \<Rightarrow>
          if event = ''error'' \<or> event = ''searchEntry'' \<or> event = ''searchReference''
          then emitOn c k (event, toArg d)
          else if event = ''end'' then pageEnd c k pause req cb d
          else Inr c
      | OnStartTls cb \<Rightarrow>
          if event = ''error'' then call (c\<lparr>starttls_phase := False\<rparr>) cb (errorArgs d)
          else if event = ''end''
          then (case onStartTlsReply c of
                  Inl x \<Rightarrow> Inl (map_js_exn Err x, c)
                | Inr (c1, saved) \<Rightarrow> Inr (c1\<lparr>handshake := Some (saved, cb)\<rparr>))
          else Inr c)"

subsection \<open>_sendRequest: the handler onMessage\<close>

text \<open>
  \<open>expect.indexOf(msg.status)\<close>: in a list of codes it finds a number; in the string
  \<open>'unbind'\<close> it finds the status \<open>'unbind'\<close> and no number.
\<close>

fun expected :: "expect \<Rightarrow> status \<Rightarrow> bool" where
  "expected (ExpectCodes cs) (Code n) = (n \<in> set cs)"
| "expected ExpectUnbind UnbindStatus = True"
| "expected e s = False"

text \<open>
  Whether \<open>msg instanceof LDAPResult\<close> holds for the \<open>UnbindResponse\<close> that \<open>_onClose\<close>
  makes is decided by the codec's class declarations; it is the parameter \<open>ur\<close>.
\<close>

fun isLDAPResult :: "bool \<Rightarrow> message \<Rightarrow> bool" where
  "isLDAPResult ur (LDAPResult i s cs) = True"
| "isLDAPResult ur (UnbindResponse i s) = ur"
| "isLDAPResult ur m = False"

fun msg_status :: "message \<Rightarrow> status" where
  "msg_status (LDAPResult i s cs) = s"
| "msg_status (UnbindResponse i s) = s"
| "msg_status m = Code 0"

fun msg_type :: "message \<Rightarrow> string" where
  "msg_type (SearchEntry i) = ''SearchEntry''"
| "msg_type (SearchReference i) = ''SearchReference''"
| "msg_type (LDAPResult i s cs) = ''LDAPResult''"
| "msg_type (UnbindResponse i s) = ''UnbindResponse''"
| "msg_type (OtherMessage i ty) = ty"

text \<open>
  \<open>dispatch(event, data)\<close>: the client emits \<open>resultError\<close> for an error; then the event
  goes to the emitter of the request, if it has one, and to the callback otherwise.
  An emit or a callback that throws ends \<open>dispatch\<close>, and the handler with it.
\<close>

definition dispatch :: "client \<Rightarrow> handler \<Rightarrow> string option \<Rightarrow> data \<Rightarrow> outcome" where
  "dispatch c h event d =
     (let c1 = (if event = Some ''error'' then effect c (ClientEvent ''resultError'' d) else c)
      in case h_emitter h of
           Some em \<Rightarrow>
             emitTo (effect c1 (EmitterEvent em (case event of None \<Rightarrow> ''end'' | Some e \<Rightarrow> e) d))
               em (case event of None \<Rightarrow> ''end'' | Some e \<Rightarrow> e) d
         | None \<Rightarrow>
             if event = Some ''error''
             then call c1 (h_callback h) (errorArgs d)
             else call c1 (h_callback h) (CbResult d))"

text \<open>
  \<open>startIdleTimer\<close>. \<open>connectionIdle\<close> reads \<open>self._tracker.pending\<close> after \<open>self._socket\<close>
  and \<open>self.connected\<close>; with the tracker \<open>null\<close> that read throws.
\<close>

definition startIdleTimer :: "client \<Rightarrow> outcome" where
  "startIdleTimer c =
     (if socket c \<noteq> None \<and> connected c
      then (case tracker c of
              None \<Rightarrow> Inl (TypeError, c)
            | Some t \<Rightarrow>
                if pending t = [] \<and> idleTimeout c > 0 \<and> \<not> idleTimer c
                then Inr (c\<lparr>idleTimer := True\<rparr>) else Inr c)
      else Inr c)"

definition onMessage :: "bool \<Rightarrow> client \<Rightarrow> handler \<Rightarrow> reply \<Rightarrow> outcome" where
  "onMessage ur c h msg =
     (let c1 = clearRequestTimer c (the_id (h_req h))
      in if h_expect h = ExpectAbandon then dispatch c1 h (Some ''end'') NoData
         else case msg of
           Reply (SearchEntry i) \<Rightarrow> dispatch c1 h (Some ''searchEntry'') (MsgData (SearchEntry i))
         | Reply (SearchReference i) \<Rightarrow>
             dispatch c1 h (Some ''searchReference'') (MsgData (SearchReference i))
         | _ \<Rightarrow>
           (case startIdleTimer
                   (c1\<lparr>tracker := map_option (\<lambda>t. remove t (the_id (h_req h))) (tracker c1)\<rparr>) of
              Inl x \<Rightarrow> Inl x
            | Inr c2 \<Rightarrow>
               (case msg of
                  Failure e \<Rightarrow> dispatch c2 h (Some ''error'') (ErrData e)
                | Reply m \<Rightarrow>
                    if \<not> isLDAPResult ur m
                    then dispatch c2 h (Some ''error'') (ErrData (ProtocolError (msg_type m)))
                    else if \<not> expected (h_expect h) (msg_status m)
                    then dispatch c2 h (Some ''error'') (ErrData (ResultError (msg_status m)))
                    else dispatch c2 h None (MsgData m))))"

text \<open>A tracked handler is called: the call is recorded, then the handler runs.\<close>

definition callHandler :: "bool \<Rightarrow> client \<Rightarrow> nat \<Rightarrow> handler \<Rightarrow> reply \<Rightarrow> outcome" where
  "callHandler ur c i h msg = onMessage ur (effect c (HandlerCalled i msg)) h msg"

subsection \<open>_sendRequest: the request timer\<close>

text \<open>
  \<open>onTimeout\<close>, the callback of the request timer, for the request that \<open>track\<close> stamped
  with \<open>i\<close>. It calls \<open>tracker.abandon\<close>, the bookkeeping of the tracker; it does not
  call \<open>Client.prototype.abandon\<close>, and nothing is written to the socket.
\<close>

definition onTimeout :: "bool \<Rightarrow> client \<Rightarrow> request \<Rightarrow> outcome" where
  "onTimeout ur c req =
     (let c1 = effect c (ClientEvent ''timeout'' (ReqData req))
      in case tracker c1 of
           None \<Rightarrow> Inr c1
         | Some t \<Rightarrow>
             (case fetch t (the_id req) of
                None \<Rightarrow> Inr c1
              | Some onMessageTracker \<Rightarrow>
                  callHandler ur (c1\<lparr>tracker := Some (abandon t (the_id req))\<rparr>)
                    (the_id req) onMessageTracker
                    (Failure (TimeoutError ''request timeout (client interrupt)''))))"

text \<open>The timer of request \<open>i\<close> expires: if it is still armed, its callback runs.\<close>

definition requestTimerExpires :: "bool \<Rightarrow> client \<Rightarrow> request \<Rightarrow> outcome" where
  "requestTimerExpires ur c req =
     (if the_id req \<in> set (requestTimers c)
      then onTimeout ur (clearRequestTimer c (the_id req)) req
      else Inr c)"

subsection \<open>unbind and destroy\<close>

definition unbind :: "client \<Rightarrow> callback option \<Rightarrow> outcome" where
  "unbind c cbo =
     (let cb = (case cbo of None \<Rightarrow> PromiseCallback | Some f \<Rightarrow> f)
      in if socket c \<noteq> None \<and> connected c
         then dispatchRequest c \<lparr>kind = UnbindReq, messageID = None\<rparr> ExpectUnbind None cb
         else call c cb CbNull)"

text \<open>
  The sink \<open>destroy\<close> hands to \<open>flush\<close>:
  \<^verbatim>\<open>function (_msg, _expect, _emitter, callback) { callback(new ConnectionError('client destroyed')) }\<close>.
\<close>

definition destroyedSink :: "client \<Rightarrow> q_entry \<Rightarrow> outcome" where
  "destroyedSink c e = call c (q_callback e) (CbError (ConnectionError ''client destroyed''))"

definition destroy :: "client \<Rightarrow> data \<Rightarrow> outcome" where
  "destroy c err =
     (case flush destroyedSink (c\<lparr>queue := freeze (queue c)\<rparr>) of
        Inl x \<Rightarrow> Inl x
      | Inr c1 \<Rightarrow>
          (case (if socket c1 \<noteq> None
                 then (case (if connected c1 then unbind c1 None else Inr c1) of
                         Inl x \<Rightarrow> Inl x
                       | Inr c2 \<Rightarrow>
                           Inr (c2\<lparr>socket := map_option (\<lambda>s. s\<lparr>sock_destroyed := True\<rparr>)
                                               (socket c2)\<rparr>))
                 else Inr c1) of
             Inl x \<Rightarrow> Inl x
           | Inr c3 \<Rightarrow> Inr (effect (c3\<lparr>destroyed := True\<rparr>) (ClientEvent ''destroy'' err))))"

subsection \<open>_onClose\<close>

text \<open>
  \<open>!socket.unbindMessageID\<close> is false for a stored id other than 0, and true for
  \<open>undefined\<close> and for 0.
\<close>

definition unbindSet :: "socket \<Rightarrow> bool" where
  "unbindSet s = (case unbindMessageID s of None \<Rightarrow> False | Some i \<Rightarrow> i \<noteq> 0)"

definition closeReply :: "socket \<Rightarrow> tracker \<Rightarrow> nat \<Rightarrow> reply" where
  "closeReply s t msgid =
     (if Some msgid = unbindMessageID s
      then Reply (UnbindResponse msgid UnbindStatus)
      else Failure (ConnectionError (tracker_id t @ '' closed'')))"

text \<open>
  Modelled from the spec: \<open>purge(fn)\<close> of the tracker calls \<open>fn(id, handler)\<close> for each
  pending entry; here \<open>fn\<close> is the function \<open>_onClose\<close> passes, which calls the handler
  with \<open>closeReply\<close>. A handler that throws ends the walk: the entries after it are not
  visited.
\<close>

fun purgeEach ::
  "bool \<Rightarrow> socket \<Rightarrow> tracker \<Rightarrow> client \<Rightarrow> (nat \<times> handler) list \<Rightarrow> outcome" where
  "purgeEach ur s t c [] = Inr c"
| "purgeEach ur s t c (p # ps) =
     (case callHandler ur c (fst p) (snd p) (closeReply s t (fst p)) of
        Inl x \<Rightarrow> Inl x
      | Inr c1 \<Rightarrow> purgeEach ur s t c1 ps)"

text \<open>Modelled from the spec: \<open>purge(fn)\<close> then clears the map.\<close>

definition purge :: "bool \<Rightarrow> socket \<Rightarrow> tracker \<Rightarrow> client \<Rightarrow> outcome" where
  "purge ur s t c =
     (case purgeEach ur s t c (pending t) of
        Inl x \<Rightarrow> Inl x
      | Inr c1 \<Rightarrow> Inr (c1\<lparr>tracker := map_option (\<lambda>t1. t1\<lparr>pending := []\<rparr>) (tracker c1)\<rparr>))"

text \<open>
  \<open>_onClose\<close>. \<open>tracker.purge\<close> on a \<open>null\<close> tracker throws. Nothing in \<open>_onClose\<close> catches
  what a handler throws: the statements after \<open>tracker.purge\<close> do not run then.
\<close>

definition onClose :: "bool \<Rightarrow> client \<Rightarrow> data \<Rightarrow> outcome" where
  "onClose ur c closeError =
     (let c1 = c\<lparr>connected := False\<rparr>
      in case (socket c1, tracker c1) of
           (Some s, Some t) \<Rightarrow>
             (case purge ur s t c1 of
                Inl x \<Rightarrow> Inl x
              | Inr c2 \<Rightarrow>
                  (let c3 = effect (c2\<lparr>tracker := None, socket := None\<rparr>)
                              (ClientEvent ''close'' closeError)
                   in if reconnect c3 \<and> \<not> unbindSet s then Inr (connect c3) else Inr c3))
         | _ \<Rightarrow> Inl (TypeError, c1))"

subsection \<open>Handlers that do not throw\<close>

text \<open>
  A SearchResult hears an \<open>error\<close> when it is still corked (the event is queued) or has
  a listener of \<open>error\<close>; otherwise the emit of \<open>error\<close> throws the error. A callback is
  plain when it is the caller's function or the promise callback. A handler is quiet
  when an error handed to it ends in a plain callback or in a SearchResult that hears
  it: the handler of a request without emitter whose callback is plain, of a search on
  a SearchResult that hears errors, of a page (expecting result codes) of such a
  search, and of a \<open>starttls\<close> whose callback is plain.
\<close>

fun plain :: "callback \<Rightarrow> bool" where
  "plain (UserCallback n) = True"
| "plain PromiseCallback = True"
| "plain cb = False"

definition hearsError :: "client \<Rightarrow> nat \<Rightarrow> bool" where
  "hearsError c k \<longleftrightarrow>
     eventQueue (s_stream (searchOf c k)) \<noteq> None
     \<or> listenersOf (s_stream (searchOf c k)) ''error'' \<noteq> []"

fun isCodes :: "expect \<Rightarrow> bool" where
  "isCodes (ExpectCodes cs) = True"
| "isCodes e = False"

definition quiet :: "client \<Rightarrow> handler \<Rightarrow> bool" where
  "quiet c h =
     (case h_emitter h of
        None \<Rightarrow> plain (h_callback h)
      | Some (OnStream k) \<Rightarrow> hearsError c k
      | Some (OnPage k pause req cb) \<Rightarrow> isCodes (h_expect h) \<and> hearsError c k
      | Some (OnStartTls cb) \<Rightarrow> isCodes (h_expect h) \<and> plain cb)"

subsection \<open>A client at work\<close>

text \<open>
  A plain TCP socket just connected, the TLS socket \<open>tls.connect\<close> makes over it, and a
  client that is connected over the first through \<open>setupResponseTracker\<close>, with a request
  timeout of 50 ms, reconnect enabled and nothing queued.
\<close>

definition tcpSocket :: socket where
  "tcpSocket =
     \<lparr>writable = True, stuffed = False, encrypted = False, unbindMessageID = None,
      dataListeners = [], errorListeners = [], writes = [], unflushed = [],
      ended = False, sock_destroyed = False\<rparr>"

definition tlsOver :: "socket \<Rightarrow> socket" where
  "tlsOver s = s\<lparr>encrypted := True, dataListeners := [], errorListeners := []\<rparr>"

definition connectedClient :: client where
  "connectedClient =
     (let (s, t) = setupResponseTracker tcpSocket ''1__ldap://localhost:389''
      in \<lparr>timeout = 50, idleTimeout = 0, reconnect = True, connected = True,
          connecting = False, destroyed = False, starttls_phase = False,
          socket = Some s, tracker = Some t, queue = requestQueueFactory 0,
          requestTimers = [], idleTimer = False, searches = [], handshake = None,
          effects = []\<rparr>)"

definition searchReq :: request where
  "searchReq = \<lparr>kind = OtherReq ''SearchRequest'', messageID = None\<rparr>"

definition addReq :: request where
  "addReq = \<lparr>kind = OtherReq ''AddRequest'', messageID = None\<rparr>"

text \<open>That client after \<open>_sendRequest\<close> of a search request, and after \<open>destroy()\<close>.\<close>

definition sentClient :: client where
  "sentClient =
     (case sendRequest connectedClient searchReq (ExpectCodes [0]) None (UserCallback 0) of
        Inr c \<Rightarrow> c | Inl x \<Rightarrow> connectedClient)"

definition destroyedClient :: client where
  "destroyedClient =
     (case destroy connectedClient NoData of Inr c \<Rightarrow> c | Inl x \<Rightarrow> connectedClient)"

subsection \<open>The socket, the caller and the scheduler\<close>

text \<open>
  What happens to the client from outside: the socket reports its oldest write as
  flushed, and the completion callback \<open>onSent\<close> of that write runs; the caller puts a
  listener on the SearchResult of a search; the scheduler runs a callback that the
  SearchResult has scheduled with \<open>setImmediate\<close>.
\<close>

definition written :: "client \<Rightarrow> outcome" where
  "written c =
     (case socket c of
        None \<Rightarrow> Inr c
      | Some s \<Rightarrow>
          (case unflushed s of
             [] \<Rightarrow> Inr c
           | e # es \<Rightarrow> onSent (c\<lparr>socket := Some (s\<lparr>unflushed := es\<rparr>)\<rparr>) e))"

definition listen :: "client \<Rightarrow> nat \<Rightarrow> string \<Rightarrow> search_listener \<Rightarrow> client" where
  "listen c k name l =
     setSearch c k ((searchOf c k)\<lparr>s_stream := on (s_stream (searchOf c k)) name l\<rparr>)"

definition turn :: "client \<Rightarrow> nat \<Rightarrow> outcome" where
  "turn c k =
     (case tick (s_stream (searchOf c k)) of
        (st, thrown) \<Rightarrow>
          (let c1 = setSearch c k ((searchOf c k)\<lparr>s_stream := st\<rparr>)
           in case thrown of None \<Rightarrow> Inr c1 | Some x \<Rightarrow> Inl (x, c1)))"

text \<open>
  The connected client in the middle of a search and an add. The caller has called
  \<open>search\<close> (the request is dispatched with the SearchResult 0 as its emitter and the
  \<open>onSent\<close> of \<open>search\<close> around the caller's callback), the write has been flushed, the
  caller has put a listener of \<open>searchEntry\<close> on the SearchResult, and no other, and the
  SearchResult has replayed its queue. Then the caller has called \<open>add\<close>, and that
  write has been flushed too. Both requests are pending.
\<close>

definition searchingClient :: client where
  "searchingClient =
     (let c1 = stateOf (dispatchRequest connectedClient searchReq (ExpectCodes [0])
                          (Some (OnStream 0)) (SearchOnSent (UserCallback 0)));
          c2 = stateOf (written c1);
          c3 = listen c2 0 ''searchEntry'' (User 0);
          c4 = stateOf (turn c3 0);
          c5 = stateOf (dispatchRequest c4 addReq (ExpectCodes [0]) None (UserCallback 1))
      in stateOf (written c5))"

text \<open>
  The connected client after the close of its socket (it is connecting again, and has
  no socket yet), and that client after the caller has called \<open>search\<close>: the request
  waits in the queue.
\<close>

definition closedClient :: client where
  "closedClient = stateOf (onClose True connectedClient NoData)"

definition queuedSearchClient :: client where
  "queuedSearchClient =
     stateOf (dispatchRequest closedClient searchReq (ExpectCodes [0])
                (Some (OnStream 0)) (SearchOnSent (UserCallback 0)))"

subsection \<open>Reading the effects\<close>

text \<open>
  The calls of tracked handlers among the effects, how often \<open>connect()\<close> was called,
  and how often the connect loop was started.
\<close>

fun isHandlerCalled :: "effect \<Rightarrow> bool" where
  "isHandlerCalled (HandlerCalled i r) = True"
| "isHandlerCalled e = False"

definition handlerCalls :: "client \<Rightarrow> effect list" where
  "handlerCalls c = filter isHandlerCalled (effects c)"

definition connectCalls :: "client \<Rightarrow> nat" where
  "connectCalls c = length (filter (\<lambda>e. e = ConnectCalled) (effects c))"

definition connectLoops :: "client \<Rightarrow> nat" where
  "connectLoops c = length (filter (\<lambda>e. e = ConnectLoop) (effects c))"

subsection \<open>What a callback or an emit leaves alone\<close>

text \<open>
  The effects a handler may add while it runs: calls of callbacks, emits on the emitter
  of a request, and the \<open>resultError\<close> event of the client. \<open>kept c c'\<close>: the client \<open>c'\<close>
  is \<open>c\<close> but for its searches, the marker of the StartTLS phase and its effects; every
  SearchResult hears an \<open>error\<close> in \<open>c'\<close> when it does in \<open>c\<close>; and the effects of \<open>c'\<close>
  are those of \<open>c\<close> and then such effects only.
\<close>

fun inner :: "effect \<Rightarrow> bool" where
  "inner (CallbackCalled cb a) = True"
| "inner (EmitterEvent em name d) = True"
| "inner (ClientEvent name d) = (name = ''resultError'')"
| "inner e = False"

definition kept :: "client \<Rightarrow> client \<Rightarrow> bool" where
  "kept c c' \<longleftrightarrow>
     c' = c\<lparr>searches := searches c', starttls_phase := starttls_phase c', effects := effects c'\<rparr>
     \<and> (\<forall>k. hearsError c' k = hearsError c k)
     \<and> (\<exists>es. effects c' = effects c @ es \<and> list_all inner es)"

text \<open>What \<open>dispatch\<close> of an error records after \<open>resultError\<close>.\<close>

definition errorTarget :: "handler \<Rightarrow> ldap_error \<Rightarrow> effect" where
  "errorTarget h e =
     (case h_emitter h of
        None \<Rightarrow> CallbackCalled (h_callback h) (CbError e)
      | Some em \<Rightarrow> EmitterEvent em ''error'' (ErrData e))"

section \<open>The cork\<close>

lemma emits_corked:
  assumes "eventQueue st = Some q" and "\<forall>ev \<in> set evs. fst ev \<noteq> ''newListener''"
  shows "emits st evs = (st\<lparr>eventQueue := Some (q @ evs)\<rparr>, None)"
  using assms
proof (induction evs arbitrary: st q)
  case Nil
  then show ?case by simp
next
  case (Cons ev evs)
  have "emit st ev = (st\<lparr>eventQueue := Some (q @ [ev])\<rparr>, None)"
    using Cons.prems by (simp add: emit_def)
  moreover have "emits (st\<lparr>eventQueue := Some (q @ [ev])\<rparr>) evs
      = (st\<lparr>eventQueue := Some ((q @ [ev]) @ evs)\<rparr>, None)"
    using Cons.IH [of "st\<lparr>eventQueue := Some (q @ [ev])\<rparr>" "q @ [ev]"] Cons.prems
    by simp
  ultimately show ?case by simp
qed

lemma drain_replays_queue:
  assumes "eventQueue st = Some q" and "q \<noteq> []" and "immediates st = 1"
    and "\<forall>ev \<in> set q. replayable st ev"
  shows "ticks (length q) st =
     (st\<lparr>eventQueue := None, immediates := 0, delivered := delivered st @ q\<rparr>, None)"
  using assms
proof (induction q arbitrary: st)
  case Nil
  then show ?case by simp
next
  case (Cons e q)
  have e: "fst e \<noteq> ''newListener''" "fst e = ''error'' \<longrightarrow> listenersOf st ''error'' \<noteq> []"
    using Cons.prems(4) by (simp_all add: replayable_def)
  show ?case
  proof (cases "q = []")
    case True
    then show ?thesis
      using Cons.prems(1,3) e
      by (simp add: tick_def emitOneEvent_def ee_emit_def listenersOf_def)
  next
    case False
    let ?st1 = "st\<lparr>immediates := 1, eventQueue := Some q, delivered := delivered st @ [e]\<rparr>"
    have step: "tick st = (?st1, None)"
      using Cons.prems(1,3) e False
      by (simp add: tick_def emitOneEvent_def ee_emit_def listenersOf_def)
    have "\<forall>ev \<in> set q. replayable ?st1 ev"
      using Cons.prems(4) by (simp add: replayable_def listenersOf_def)
    then have "ticks (length q) ?st1 =
        (?st1\<lparr>eventQueue := None, immediates := 0, delivered := delivered ?st1 @ q\<rparr>, None)"
      using Cons.IH [of ?st1] False by simp
    then show ?thesis using step by simp
  qed
qed

lemma uncorked_emit_not_queued:
  assumes "eventQueue st = None"
  shows "eventQueue (fst (emit st ev)) = None"
  using assms by (simp add: emit_def ee_emit_def fireNewListener_def)

lemma cork_replays_in_order:
  fixes evs :: "(string \<times> 'a) list" and l :: 'l
  assumes "evs \<noteq> []" and "\<forall>ev \<in> set evs. fst ev \<noteq> ''newListener''"
    and "\<forall>ev \<in> set evs. fst ev = ''error'' \<longrightarrow> name = ''error''"
  shows "ticks (length evs) (on (fst (emits (CorkedEmitter :: ('a, 'l) emitter) evs)) name l)
     = (\<lparr>eventQueue = None, listeners = [(name, l)], newListenerOnce = False,
         immediates = 0, delivered = evs\<rparr>, None)"
proof -
  let ?c = "CorkedEmitter :: ('a, 'l) emitter"
  let ?st = "on (?c\<lparr>eventQueue := Some evs\<rparr>) name l"
  have q: "emits ?c evs = (?c\<lparr>eventQueue := Some ([] @ evs)\<rparr>, None)"
    by (rule emits_corked) (simp_all add: CorkedEmitter_def assms(2))
  have r: "\<forall>ev \<in> set evs. replayable ?st ev"
    using assms(2,3)
    by (auto simp: replayable_def listenersOf_def on_def CorkedEmitter_def fireNewListener_def)
  have e: "fst (emits ?c evs) = ?c\<lparr>eventQueue := Some evs\<rparr>"
    using q by simp
  have "ticks (length evs) ?st
      = (?st\<lparr>eventQueue := None, immediates := 0, delivered := delivered ?st @ evs\<rparr>, None)"
    by (rule drain_replays_queue [OF _ assms(1) _ r])
       (simp_all add: on_def CorkedEmitter_def fireNewListener_def)
  then show ?thesis
    unfolding e by (simp add: on_def CorkedEmitter_def fireNewListener_def)
qed

text \<open>
  Claim C9. The first listener is attached to a new emitter whose queue is empty, and
  nothing is emitted before the scheduled drain runs. The drain then throws a TypeError
  (it calls the \<open>undefined\<close> that \<open>shift()\<close> returns on an empty array); the queue is still
  the empty array, so the emitter is still corked, and no further drain is scheduled.
\<close>

theorem empty_drain_throws:
  "tick (on CorkedEmitter name l)
     = (\<lparr>eventQueue = Some [], listeners = [(name, l)], newListenerOnce = False,
         immediates = 0, delivered = []\<rparr>, Some TypeError)"
  by (simp add: tick_def on_def CorkedEmitter_def fireNewListener_def emitOneEvent_def)

text \<open>
  Claim C7, at the sequence of no events. A listener for \<open>searchEntry\<close> is attached to a
  new emitter and the scheduler runs the drain. The two events emitted afterwards are
  not handed to the listener: they are in the queue, nothing has been delivered, and no
  drain is scheduled that would deliver them. So after the (empty) buffer has been
  drained, emits are buffered again, against the claim. For a sequence that is not
  empty and that the base class does not throw, \<open>cork_replays_in_order\<close> is the claim.
\<close>

theorem empty_cork_is_never_released:
  "fst (emits (fst (ticks 1 (on (CorkedEmitter :: (nat, nat) emitter) ''searchEntry'' 0)))
          [(''searchEntry'', 7), (''end'', 8)])
     = \<lparr>eventQueue = Some [(''searchEntry'', 7), (''end'', 8)],
        listeners = [(''searchEntry'', 0)], newListenerOnce = False,
        immediates = 0, delivered = []\<rparr>"
  by (simp add: tick_def on_def CorkedEmitter_def fireNewListener_def emitOneEvent_def emit_def)

section \<open>The entries of a search\<close>

lemma generator_without_receiver_throws:
  "for_await (getInjectableAsyncIterator :: 'v iterator) acc = RejectedWith TypeError"
  by (simp add: getInjectableAsyncIterator_def generator_next_def)

lemma toArray_with_options_rejects:
  "snd (toArray sr (Some opts) :: search_result \<times> 'v list settled) = RejectedWith TypeError"
  by (simp add: toArray_def entries_def Let_def getInjectableAsyncIterator_def
      generator_next_def)

text \<open>
  Claim C1, at the call the claim names. \<open>toArray()\<close> without an argument, on any
  SearchResult (whatever entries and result the server has sent, buffered or not), does
  not resolve to the list of entries: the promise is rejected with the TypeError of
  \<^verbatim>\<open>options.includeSearchReferences\<close> on an \<open>undefined\<close> options. With an options
  object the promise is rejected as well (\<open>toArray_with_options_rejects\<close>), by the first
  \<open>next()\<close> of a generator whose \<open>this\<close> is \<open>undefined\<close>.
\<close>

theorem toArray_without_options_rejects:
  "snd (toArray sr None :: search_result \<times> 'v list settled) = RejectedWith TypeError"
  by (simp add: toArray_def entries_def)

section \<open>The end of a page\<close>






section \<open>Callbacks and emits\<close>

lemma map_of_filter_other:
  "map_of (filter (\<lambda>p. fst p \<noteq> k) ps) j = (if j = k then None else map_of ps j)"
  by (induction ps) auto

lemma searchOf_setSearch [simp]:
  "searchOf (setSearch c k s) j = (if j = k then s else searchOf c j)"
  by (simp add: searchOf_def setSearch_def map_of_filter_other)

lemma searchOf_effects [simp]: "searchOf (c\<lparr>effects := es\<rparr>) k = searchOf c k"
  "searchOf (c\<lparr>starttls_phase := b\<rparr>) k = searchOf c k"
  "searchOf (effect c e) k = searchOf c k"
  by (simp_all add: searchOf_def effect_def)

lemma stateOf_simps [simp]: "stateOf (Inr c) = c" "stateOf (Inl (x, c)) = c"
  by (simp_all add: stateOf_def)

lemma emit_keeps:
  "(eventQueue (fst (emit st ev)) = None) = (eventQueue st = None)"
  "listeners (fst (emit st ev)) = listeners st"
  by (auto simp: emit_def ee_emit_def fireNewListener_def split: option.splits)

lemma emit_heard:
  "eventQueue st \<noteq> None \<or> listenersOf st ''error'' \<noteq> [] \<or> fst ev \<noteq> ''error''
     \<Longrightarrow> snd (emit st ev) = None"
  by (auto simp: emit_def ee_emit_def split: option.splits)

lemma kept_refl [simp]: "kept c c"
  by (simp add: kept_def)

lemma kept_trans: "kept c c1 \<Longrightarrow> kept c1 c2 \<Longrightarrow> kept c c2"
  by (cases c; cases c1; cases c2) (auto simp: kept_def)

lemma kept_effect [simp]: "inner e \<Longrightarrow> kept c (effect c e)"
  by (simp add: kept_def effect_def hearsError_def)

lemma kept_phase [simp]: "kept c (c\<lparr>starttls_phase := b\<rparr>)"
  by (simp add: kept_def hearsError_def)

lemma keptD:
  assumes "kept c c'"
  shows "tracker c' = tracker c" "socket c' = socket c" "queue c' = queue c"
    "connected c' = connected c" "connecting c' = connecting c" "destroyed c' = destroyed c"
    "reconnect c' = reconnect c" "timeout c' = timeout c" "idleTimeout c' = idleTimeout c"
    "requestTimers c' = requestTimers c" "idleTimer c' = idleTimer c"
    "handshake c' = handshake c" "hearsError c' k = hearsError c k"
  using assms by (cases c; cases c'; simp add: kept_def)+

lemma kept_effects: "kept c c' \<Longrightarrow> \<exists>es. effects c' = effects c @ es \<and> list_all inner es"
  by (simp add: kept_def)

lemma hearsError_setSearch:
  "hearsError (setSearch c k s) j
     = (if j = k then eventQueue (s_stream s) \<noteq> None \<or> listenersOf (s_stream s) ''error'' \<noteq> []
        else hearsError c j)"
  by (simp add: hearsError_def)

lemma kept_setSearch:
  assumes "(eventQueue (s_stream s) = None) = (eventQueue (s_stream (searchOf c k)) = None)"
    and "listeners (s_stream s) = listeners (s_stream (searchOf c k))"
  shows "kept c (setSearch c k s)"
  using assms
  by (simp add: kept_def hearsError_setSearch) (simp add: setSearch_def hearsError_def listenersOf_def)

lemma emitOn_kept: "kept c (stateOf (emitOn c k ev))"
proof -
  obtain st thrown where e: "emit (s_stream (searchOf c k)) ev = (st, thrown)"
    by (cases "emit (s_stream (searchOf c k)) ev")
  have st: "st = fst (emit (s_stream (searchOf c k)) ev)" by (simp add: e)
  have s: "stateOf (emitOn c k ev) = setSearch c k ((searchOf c k)\<lparr>s_stream := st\<rparr>)"
    by (simp add: emitOn_def e Let_def split: option.splits)
  show "kept c (stateOf (emitOn c k ev))"
    unfolding s by (rule kept_setSearch) (simp_all add: st emit_keeps)
qed

lemma emitOn_effects: "effects (stateOf (emitOn c k ev)) = effects c"
  by (cases "emit (s_stream (searchOf c k)) ev")
     (simp add: emitOn_def Let_def setSearch_def split: option.splits)

lemma emitOn_returns:
  assumes "hearsError c k \<or> fst ev \<noteq> ''error''"
  shows "emitOn c k ev = Inr (stateOf (emitOn c k ev))"
proof -
  obtain st thrown where e: "emit (s_stream (searchOf c k)) ev = (st, thrown)"
    by (cases "emit (s_stream (searchOf c k)) ev")
  have "snd (emit (s_stream (searchOf c k)) ev) = None"
    using assms by (intro emit_heard) (auto simp: hearsError_def)
  then have "thrown = None" by (simp add: e)
  then show ?thesis
    by (simp add: emitOn_def e Let_def)
qed

lemma emitSearchRequest_kept: "kept c (stateOf (emitSearchRequest c em arg))"
  by (cases em) (simp_all add: emitSearchRequest_def emitOn_kept)

lemma call_plain:
  "plain cb \<Longrightarrow> call c cb a = Inr (effect c (CallbackCalled cb a))"
  by (cases cb) simp_all

lemma kept_seq:
  assumes "kept c (stateOf r)" and "\<And>c1. r = Inr c1 \<Longrightarrow> kept c1 (stateOf (f c1))"
  shows "kept c (stateOf (case r of Inl x \<Rightarrow> Inl x | Inr c1 \<Rightarrow> f c1))"
proof (cases r)
  case (Inl a)
  then show ?thesis using assms(1) by (cases a) simp
next
  case (Inr c1)
  then show ?thesis using assms kept_trans by fastforce
qed

lemma kept_after:
  assumes "kept c0 c1" and "kept c1 (stateOf r)"
  shows "kept c0 (stateOf r)"
  using assms kept_trans by blast

lemma kept_wrap:
  assumes "kept (effect c0 Y) (stateOf r)" and "inner Y"
    and "\<And>c1. kept c1 (stateOf (f c1))"
  shows "kept c0 (stateOf (case r of Inl x \<Rightarrow> Inl x | Inr c1 \<Rightarrow> f c1))"
  by (rule kept_seq) (use assms kept_trans kept_effect in blast)+

lemma call_kept: "kept (effect c (CallbackCalled cb a)) (stateOf (call c cb a))"
proof (induction c cb a rule: call.induct, goal_cases)
  case (9 c k cb a)
  let ?X = "CallbackCalled (PagedOnSent k cb) a"
  let ?c0 = "effect c ?X"
  let ?c1 = "setSearch ?c0 k ((searchOf c k)\<lparr>s_called := True\<rparr>)"
  let ?r = "if s_called (searchOf c k) then Inr ?c0
            else call ?c1 cb (CbSearch (errArg a) (OnStream k))"
  have r: "kept ?c0 (stateOf ?r)"
  proof (cases "s_called (searchOf c k)")
    case True
    then show ?thesis by simp
  next
    case False
    have a: "kept ?c0 ?c1" by (rule kept_setSearch) simp_all
    have b: "kept ?c1 (effect ?c1 (CallbackCalled cb (CbSearch (errArg a) (OnStream k))))"
      by simp
    note c = 9 [OF False]
    show ?thesis
      using False kept_trans [OF a kept_trans [OF b c]] by simp
  qed
  show ?case
    unfolding call.simps
    by (rule kept_seq [OF r]) (simp add: emitOn_kept split: option.splits)
next
  case (10 c cb a)
  let ?X = "CallbackCalled (StartTlsOnSent cb) a"
  let ?c0 = "effect c ?X"
  show ?case
  proof (cases "errOf a")
    case None
    then show ?thesis by simp
  next
    case (Some e)
    let ?c1 = "?c0\<lparr>starttls_phase := False\<rparr>"
    have a: "kept ?c0 ?c1" by simp
    have b: "kept ?c1 (effect ?c1 (CallbackCalled cb (errArg a)))" by simp
    note c = 10 [OF Some]
    show ?thesis
      using Some kept_trans [OF a kept_trans [OF b c]] by simp
  qed
next
  case (3 c cb em req)
  show ?case
    unfolding call.simps by (rule kept_wrap [OF 3]) (simp_all add: emitSearchRequest_kept)
next
  case (4 c cb a em)
  show ?case
    unfolding call.simps by (rule kept_wrap [OF 4]) (simp_all add: emitSearchRequest_kept)
next
  case (5 c cb)
  show ?case
    unfolding call.simps by (rule kept_wrap [OF 5]) simp_all
next
  case (6 c cb v)
  show ?case
    unfolding call.simps by (rule kept_wrap [OF 6]) simp_all
next
  case (7 c cb)
  show ?case
    unfolding call.simps by (rule kept_wrap [OF 7]) simp_all
next
  case (8 c cb v)
  show ?case
    unfolding call.simps by (rule kept_wrap [OF 8]) simp_all
qed simp_all


lemma quiet_cong: "searches c' = searches c \<Longrightarrow> quiet c' h = quiet c h"
  by (simp add: quiet_def hearsError_def searchOf_def split: option.splits req_emitter.splits)

lemma kept_prefix:
  assumes "kept c0 c'" and "effects c0 = es0"
  shows "\<exists>rest. effects c' = es0 @ rest"
  using assms by (auto simp: kept_def)

lemma emitTo_error_kept: "kept c (stateOf (emitTo c em ''error'' (ErrData e)))"
proof (cases em)
  case (OnStream k)
  then show ?thesis by (simp add: emitTo_def emitOn_kept)
next
  case (OnPage k pause req cb)
  then show ?thesis by (simp add: emitTo_def emitOn_kept)
next
  case (OnStartTls cb)
  have a: "kept c (c\<lparr>starttls_phase := False\<rparr>)" by simp
  have b: "kept (c\<lparr>starttls_phase := False\<rparr>)
      (effect (c\<lparr>starttls_phase := False\<rparr>) (CallbackCalled cb (CbError e)))" by simp
  show ?thesis
    using kept_trans [OF a kept_trans [OF b call_kept]] OnStartTls
    by (simp add: emitTo_def)
qed

lemma dispatch_error:
  "kept (c\<lparr>effects := effects c @ [ClientEvent ''resultError'' (ErrData e), errorTarget h e]\<rparr>)
     (stateOf (dispatch c h (Some ''error'') (ErrData e)))"
proof (cases "h_emitter h")
  case None
  then show ?thesis
    using call_kept [of "effect c (ClientEvent ''resultError'' (ErrData e))" "h_callback h" "CbError e"]
    by (simp add: dispatch_def errorTarget_def effect_def)
next
  case (Some em)
  then show ?thesis
    using emitTo_error_kept [of "c\<lparr>effects := effects c
        @ [ClientEvent ''resultError'' (ErrData e), errorTarget h e]\<rparr>" em e]
    by (simp add: dispatch_def errorTarget_def effect_def)
qed

lemma dispatch_error_quiet:
  assumes "quiet c h"
  shows "dispatch c h (Some ''error'') (ErrData e)
     = Inr (stateOf (dispatch c h (Some ''error'') (ErrData e)))
   \<and> effects (stateOf (dispatch c h (Some ''error'') (ErrData e)))
     = effects c @ [ClientEvent ''resultError'' (ErrData e), errorTarget h e]
        @ (case h_emitter h of Some (OnStartTls cb') \<Rightarrow> [CallbackCalled cb' (CbError e)]
           | _ \<Rightarrow> [])"
proof (cases "h_emitter h")
  case None
  then show ?thesis
    using assms by (simp add: dispatch_def quiet_def call_plain effect_def errorTarget_def)
next
  case (Some em)
  let ?c1 = "effect (effect c (ClientEvent ''resultError'' (ErrData e)))
      (EmitterEvent em ''error'' (ErrData e))"
  have d: "dispatch c h (Some ''error'') (ErrData e) = emitTo ?c1 em ''error'' (ErrData e)"
    using Some by (simp add: dispatch_def)
  show ?thesis
  proof (cases em)
    case (OnStream k)
    then have "hearsError ?c1 k"
      using assms Some by (simp add: quiet_def hearsError_def effect_def)
    from emitOn_returns [of ?c1 k "(''error'', Err e)"] this
    show ?thesis
      using Some OnStream
      by (simp add: d emitTo_def emitOn_effects errorTarget_def effect_def)
  next
    case (OnPage k pause req cb)
    then have "hearsError ?c1 k"
      using assms Some by (simp add: quiet_def hearsError_def effect_def)
    from emitOn_returns [of ?c1 k "(''error'', Err e)"] this
    show ?thesis
      using Some OnPage
      by (simp add: d emitTo_def emitOn_effects errorTarget_def effect_def)
  next
    case (OnStartTls cb)
    then have "plain cb"
      using assms Some by (simp add: quiet_def)
    then show ?thesis
      using Some OnStartTls
      by (simp add: d emitTo_def call_plain errorTarget_def effect_def)
  qed
qed

section \<open>The changes of a modify\<close>

lemma itemized_one_change_per_attribute:
  assumes "truthy (c_operation c)" and "c_modification c = JObj kvs" and "length kvs \<noteq> 2"
  shows "\<exists>cs. changesFromObject c = Inr cs \<and> length cs = length kvs
           \<and> (\<forall>ch \<in> set cs. operation ch = c_operation c)"
  using assms by (auto simp: changesFromObject_def enumerate_eq_zip dest: set_zip_rightD)

text \<open>
  Claim C2, at a plain object with one attribute. \<open>modify\<close> is called with
  \<^verbatim>\<open>{ operation: 'replace', modification: { cn: ['foo', 'bar'] } }\<close>. There is one Change
  for the one attribute, under the operation given, but it does not pair \<open>cn\<close> with its
  values: the function handed to \<open>map\<close> names its parameters \<open>(k, val)\<close>, so \<open>k\<close> is the
  pair \<open>['cn', ['foo', 'bar']]\<close> and \<open>val\<close> the index 0, and the modification built is
  \<^verbatim>\<open>{ 'cn,foo,bar': 0 }\<close>.
\<close>

theorem itemized_change_pairs_joined_key_with_index:
  "itemizeChanges (One (PlainObject
       \<lparr>c_operation = Some ''replace'', c_type = None,
        c_modification = JObj [(''cn'', JArr [JStr ''foo'', JStr ''bar''])]\<rparr>))
     = Inr [\<lparr>operation = Some ''replace'',
             modification = JObj [(''cn,foo,bar'', JNum 0)]\<rparr>]"
  by (simp add: changesFromObject_def truthy_def enumerate_eq_zip)

section \<open>The entry of a request\<close>



section \<open>The client at work\<close>

lemmas fixture_defs = connectedClient_def setupResponseTracker_def messageTrackerFactory_def
  tcpSocket_def searchReq_def addReq_def requestQueueFactory_def

lemma sentClient_eq:
  "sentClient =
     connectedClient
       \<lparr>socket := Some (tcpSocket
          \<lparr>dataListeners := [OnData],
           writes := [searchReq\<lparr>messageID := Some 1\<rparr>],
           unflushed := [\<lparr>q_req = searchReq\<lparr>messageID := Some 1\<rparr>,
             q_expect = ExpectCodes [0], q_emitter = None, q_callback = UserCallback 0\<rparr>]\<rparr>),
        tracker := Some
          \<lparr>tracker_id = ''1__ldap://localhost:389'',
           pending = [(1, \<lparr>h_req = searchReq\<lparr>messageID := Some 1\<rparr>,
             h_expect = ExpectCodes [0], h_emitter = None, h_callback = UserCallback 0\<rparr>)],
           nextID = 2, abandonedIDs = []\<rparr>,
        requestTimers := [1]\<rparr>"
  by (simp add: sentClient_def fixture_defs sendRequest_def track_def succ_id_def
      MAX_MSGID_def the_id_def Let_def)

lemma destroyedClient_eq:
  "destroyedClient =
     connectedClient
       \<lparr>destroyed := True,
        socket := Some (tcpSocket
          \<lparr>dataListeners := [OnData],
           writes := [\<lparr>kind = UnbindReq, messageID = Some 1\<rparr>],
           unflushed := [\<lparr>q_req = \<lparr>kind = UnbindReq, messageID = Some 1\<rparr>,
             q_expect = ExpectUnbind, q_emitter = None, q_callback = PromiseCallback\<rparr>],
           sock_destroyed := True\<rparr>),
        tracker := Some
          \<lparr>tracker_id = ''1__ldap://localhost:389'',
           pending = [(1, \<lparr>h_req = \<lparr>kind = UnbindReq, messageID = Some 1\<rparr>,
             h_expect = ExpectUnbind, h_emitter = None, h_callback = PromiseCallback\<rparr>)],
           nextID = 2, abandonedIDs = []\<rparr>,
        queue := \<lparr>size = None, items = [], frozen = True\<rparr>,
        requestTimers := [1],
        effects := [ClientEvent ''destroy'' NoData]\<rparr>"
  by (simp add: destroyedClient_def fixture_defs destroy_def flush_def freeze_def unbind_def
      dispatchRequest_def sendEntry_def effect_def sendRequest_def track_def succ_id_def
      MAX_MSGID_def the_id_def Let_def)

section \<open>The request timer\<close>

lemma map_of_store: "map_of (store i h ps) i = Some h"
  by (induction ps) auto

lemma map_of_filter_out: "map_of (filter (\<lambda>p. fst p \<noteq> i) ps) i = None"
  by (induction ps) auto

lemma fetch_track:
  "track t req exp em cb = (t1, req1) \<Longrightarrow>
     fetch t1 (the_id req1)
       = Some \<lparr>h_req = req1, h_expect = exp, h_emitter = em, h_callback = cb\<rparr>
     \<and> kind req1 = kind req \<and> messageID req1 = Some (the_id req1)"
  by (auto simp: track_def fetch_def Let_def the_id_def map_of_store)

lemma fetch_remove_abandon: "fetch (remove (abandon t i) i) i = None"
  "abandonedIDs (remove (abandon t i) i) = abandonedIDs t @ [i]"
  by (simp_all add: fetch_def abandon_def remove_def map_of_filter_out)

lemma timeout_dispatches:
  assumes "tracker c1 = Some t1" and "i \<in> set (requestTimers c1)" and "the_id req1 = i"
    and "fetch t1 i = Some h" and "h_req h = req1" and "h_expect h \<noteq> ExpectAbandon"
    and "socket c1 \<noteq> None"
  shows "\<exists>cX. requestTimerExpires ur c1 req1
        = dispatch cX h (Some ''error'')
            (ErrData (TimeoutError ''request timeout (client interrupt)''))
      \<and> effects cX = effects c1 @ [ClientEvent ''timeout'' (ReqData req1),
           HandlerCalled i (Failure (TimeoutError ''request timeout (client interrupt)''))]
      \<and> tracker cX = Some (remove (abandon t1 i) i) \<and> socket cX = socket c1
      \<and> searches cX = searches c1"
  using assms
  by (auto simp: requestTimerExpires_def onTimeout_def clearRequestTimer_def effect_def
      callHandler_def onMessage_def startIdleTimer_def Let_def)

text \<open>
  Claim C3, as the code has it. The client has a request timeout, and a request is sent
  on its socket: the request is tracked under a messageID \<open>i\<close>, written, and its timer
  is armed. When the timer expires before any response, the client emits \<open>timeout\<close>,
  the pending handler of \<open>i\<close> is called with the TimeoutError 'request timeout (client
  interrupt)' and hands it to the callback (or to the emitter of the request, as
  \<open>error\<close>), and \<open>i\<close> is abandoned in the tracker: recorded among the abandoned ids and
  no longer pending. The socket is as it was after the request was written: the
  expiry writes nothing, so no AbandonRequest goes to the server. All of this holds
  whether the callback or the emit returns or throws (\<open>c2\<close> is the client afterwards,
  \<open>rest\<close> what the callback or the listeners of the emitter have added to the
  effects). With a quiet handler the expiry returns, and \<open>rest\<close> is empty but for the
  callback of \<open>starttls\<close>, which the listener of \<open>error\<close> of its emitter calls.
\<close>

theorem request_timeout_abandons_in_tracker_only:
  assumes "timeout c > 0" and "tracker c = Some t" and "socket c = Some s"
    and "exp \<noteq> ExpectAbandon"
  shows "\<exists>c1 c2 t2 req1 i rest.
      sendRequest c req exp em cb = Inr c1
    \<and> messageID req1 = Some i \<and> kind req1 = kind req
    \<and> i \<in> set (requestTimers c1)
    \<and> (\<exists>s1. socket c1 = Some s1 \<and> writes s1 = writes s @ [req1])
    \<and> (requestTimerExpires ur c1 req1 = Inr c2
        \<or> (\<exists>x. requestTimerExpires ur c1 req1 = Inl (x, c2)))
    \<and> effects c2 = effects c @
         [ClientEvent ''timeout'' (ReqData req1),
          HandlerCalled i (Failure (TimeoutError ''request timeout (client interrupt)'')),
          ClientEvent ''resultError''
            (ErrData (TimeoutError ''request timeout (client interrupt)'')),
          (case em of
             None \<Rightarrow> CallbackCalled cb
               (CbError (TimeoutError ''request timeout (client interrupt)''))
           | Some e \<Rightarrow> EmitterEvent e ''error''
               (ErrData (TimeoutError ''request timeout (client interrupt)'')))] @ rest
    \<and> tracker c2 = Some t2 \<and> i \<in> set (abandonedIDs t2) \<and> fetch t2 i = None
    \<and> socket c2 = socket c1
    \<and> (quiet c \<lparr>h_req = req1, h_expect = exp, h_emitter = em, h_callback = cb\<rparr> \<longrightarrow>
          requestTimerExpires ur c1 req1 = Inr c2
        \<and> rest = (case em of
                    Some (OnStartTls cb') \<Rightarrow>
                      [CallbackCalled cb'
                         (CbError (TimeoutError ''request timeout (client interrupt)''))]
                  | _ \<Rightarrow> []))"
proof -
  obtain t1 req1 where tr: "track t req exp em cb = (t1, req1)"
    by (cases "track t req exp em cb")
  let ?i = "the_id req1"
  let ?h = "\<lparr>h_req = req1, h_expect = exp, h_emitter = em, h_callback = cb\<rparr>"
  let ?s1 = "s\<lparr>writes := writes s @ [req1],
      unflushed := unflushed s @
        [\<lparr>q_req = req1, q_expect = exp, q_emitter = em, q_callback = cb\<rparr>]\<rparr>"
  let ?c1 = "c\<lparr>idleTimer := False, requestTimers := requestTimers c @ [?i],
      tracker := Some t1, socket := Some ?s1\<rparr>"
  let ?to = "TimeoutError ''request timeout (client interrupt)''"
  let ?t2 = "remove (abandon t1 ?i) ?i"
  let ?X = "case em of None \<Rightarrow> CallbackCalled cb (CbError ?to)
           | Some e \<Rightarrow> EmitterEvent e ''error'' (ErrData ?to)"
  let ?tail = "case em of Some (OnStartTls cb') \<Rightarrow> [CallbackCalled cb' (CbError ?to)]
           | _ \<Rightarrow> []"
  have f: "fetch t1 ?i = Some ?h" "kind req1 = kind req" "messageID req1 = Some ?i"
    using fetch_track [OF tr] by simp_all
  have send: "sendRequest c req exp em cb = Inr ?c1"
    using assms tr by (simp add: sendRequest_def)
  have X: "errorTarget ?h ?to = ?X"
    by (simp add: errorTarget_def split: option.splits)
  from timeout_dispatches [of ?c1 t1 ?i req1 ?h ur] assms(4) f(1)
  obtain cX where cX:
    "requestTimerExpires ur ?c1 req1 = dispatch cX ?h (Some ''error'') (ErrData ?to)"
    "effects cX = effects c
       @ [ClientEvent ''timeout'' (ReqData req1), HandlerCalled ?i (Failure ?to)]"
    "tracker cX = Some ?t2" "socket cX = Some ?s1" "searches cX = searches c"
    by auto
  let ?r = "requestTimerExpires ur ?c1 req1"
  let ?c2 = "stateOf ?r"
  let ?cY = "cX\<lparr>effects := effects cX @ [ClientEvent ''resultError'' (ErrData ?to), ?X]\<rparr>"
  have k: "kept ?cY ?c2"
    using dispatch_error [of cX ?to ?h] by (simp add: cX(1) X)
  have st: "tracker ?c2 = Some ?t2" "socket ?c2 = Some ?s1"
    using keptD(1,2) [OF k] cX(3,4) by simp_all
  from kept_prefix [OF k, of "effects cX @ [ClientEvent ''resultError'' (ErrData ?to), ?X]"]
  obtain rest where rest: "effects ?c2 = effects c @
      [ClientEvent ''timeout'' (ReqData req1), HandlerCalled ?i (Failure ?to),
       ClientEvent ''resultError'' (ErrData ?to), ?X] @ rest"
    by (auto simp: cX(2))
  have res: "?r = Inr ?c2 \<or> (\<exists>x. ?r = Inl (x, ?c2))"
    by (cases ?r) (auto simp: stateOf_def)
  have q: "?r = Inr ?c2 \<and> rest = ?tail" if "quiet c ?h"
  proof -
    have "quiet cX ?h"
      using that quiet_cong [OF cX(5)] by simp
    from dispatch_error_quiet [OF this, of ?to]
    have "?r = Inr ?c2" and "effects ?c2 = effects cX
        @ [ClientEvent ''resultError'' (ErrData ?to), ?X] @ ?tail"
      by (simp_all add: cX(1) X)
    then show ?thesis
      using rest by (simp add: cX(2))
  qed
  have ab: "?i \<in> set (abandonedIDs ?t2)" "fetch ?t2 ?i = None"
    by (simp_all add: fetch_remove_abandon)
  have tm: "?i \<in> set (requestTimers ?c1)" "socket ?c1 = Some ?s1"
    "writes ?s1 = writes s @ [req1]"
    using assms(1) by simp_all
  show ?thesis
    apply (rule exI [of _ ?c1], rule exI [of _ ?c2], rule exI [of _ ?t2],
        rule exI [of _ req1], rule exI [of _ ?i], rule exI [of _ rest])
    using send f(2,3) tm res rest st ab q by (simp only:) blast
qed

text \<open>The theorem of C3 at the connected client with a timeout of 50 ms and a search request.\<close>

theorem request_timeout_abandons_in_tracker_only_witness:
  "timeout connectedClient > 0
   \<and> (\<exists>c1 c2 t2 req1 i.
        sendRequest connectedClient searchReq (ExpectCodes [0]) None (UserCallback 0) = Inr c1
      \<and> messageID req1 = Some i \<and> kind req1 = OtherReq ''SearchRequest''
      \<and> i \<in> set (requestTimers c1)
      \<and> (\<exists>s1. socket c1 = Some s1 \<and> writes s1 = [req1])
      \<and> requestTimerExpires True c1 req1 = Inr c2
      \<and> effects c2 =
           [ClientEvent ''timeout'' (ReqData req1),
            HandlerCalled i (Failure (TimeoutError ''request timeout (client interrupt)'')),
            ClientEvent ''resultError''
              (ErrData (TimeoutError ''request timeout (client interrupt)'')),
            CallbackCalled (UserCallback 0)
              (CbError (TimeoutError ''request timeout (client interrupt)''))]
      \<and> tracker c2 = Some t2 \<and> i \<in> set (abandonedIDs t2) \<and> fetch t2 i = None
      \<and> socket c2 = socket c1)"
proof -
  have h1: "timeout connectedClient > 0"
    and h2: "tracker connectedClient = Some (messageTrackerFactory ''1__ldap://localhost:389'')"
    and h3: "socket connectedClient = Some (tcpSocket\<lparr>dataListeners := [OnData]\<rparr>)"
    and h4: "ExpectCodes [0] \<noteq> ExpectAbandon"
    by (simp_all add: connectedClient_def setupResponseTracker_def tcpSocket_def)
  have e: "effects connectedClient = []" "writes (tcpSocket\<lparr>dataListeners := [OnData]\<rparr>) = []"
    "kind searchReq = OtherReq ''SearchRequest''"
    by (simp_all add: fixture_defs)
  have q: "quiet connectedClient
      \<lparr>h_req = r, h_expect = ExpectCodes [0], h_emitter = None, h_callback = UserCallback 0\<rparr>" for r
    by (simp add: quiet_def)
  from request_timeout_abandons_in_tracker_only
      [OF h1 h2 h3 h4, of searchReq None "UserCallback 0" True]
  obtain c1 c2 t2 req1 i rest where w:
    "sendRequest connectedClient searchReq (ExpectCodes [0]) None (UserCallback 0) = Inr c1
    \<and> messageID req1 = Some i \<and> kind req1 = kind searchReq
    \<and> i \<in> set (requestTimers c1)
    \<and> (\<exists>s1. socket c1 = Some s1 \<and> writes s1 = writes (tcpSocket\<lparr>dataListeners := [OnData]\<rparr>) @ [req1])
    \<and> (requestTimerExpires True c1 req1 = Inr c2
        \<or> (\<exists>x. requestTimerExpires True c1 req1 = Inl (x, c2)))
    \<and> effects c2 = effects connectedClient @
         [ClientEvent ''timeout'' (ReqData req1),
          HandlerCalled i (Failure (TimeoutError ''request timeout (client interrupt)'')),
          ClientEvent ''resultError''
            (ErrData (TimeoutError ''request timeout (client interrupt)'')),
          (case None of
             None \<Rightarrow> CallbackCalled (UserCallback 0)
               (CbError (TimeoutError ''request timeout (client interrupt)''))
           | Some e \<Rightarrow> EmitterEvent e ''error''
               (ErrData (TimeoutError ''request timeout (client interrupt)'')))] @ rest
    \<and> tracker c2 = Some t2 \<and> i \<in> set (abandonedIDs t2) \<and> fetch t2 i = None
    \<and> socket c2 = socket c1
    \<and> (quiet connectedClient \<lparr>h_req = req1, h_expect = ExpectCodes [0], h_emitter = None,
           h_callback = UserCallback 0\<rparr> \<longrightarrow>
          requestTimerExpires True c1 req1 = Inr c2
        \<and> rest = (case None of
                    Some (OnStartTls cb') \<Rightarrow>
                      [CallbackCalled cb'
                         (CbError (TimeoutError ''request timeout (client interrupt)''))]
                  | _ \<Rightarrow> []))"
    by blast
  show ?thesis
    apply (rule conjI [OF h1])
    apply (rule exI [of _ c1], rule exI [of _ c2], rule exI [of _ t2],
        rule exI [of _ req1], rule exI [of _ i])
    using w q [of req1] by (simp add: e)
qed

text \<open>
  Claim C3 as stated fails: the search request of the connected client times out, its
  handler gets the TimeoutError and its id 1 is abandoned in the tracker, and the
  socket is still the one of \<open>sentClient\<close>, to which only the search request was
  written. No AbandonRequest has been sent.
\<close>

theorem request_timeout_writes_no_AbandonRequest:
  "requestTimerExpires True sentClient (searchReq\<lparr>messageID := Some 1\<rparr>)
     = Inr (sentClient
         \<lparr>tracker := Some \<lparr>tracker_id = ''1__ldap://localhost:389'', pending = [],
                            nextID = 2, abandonedIDs = [1]\<rparr>,
          requestTimers := [],
          effects :=
            [ClientEvent ''timeout'' (ReqData (searchReq\<lparr>messageID := Some 1\<rparr>)),
             HandlerCalled 1 (Failure (TimeoutError ''request timeout (client interrupt)'')),
             ClientEvent ''resultError''
               (ErrData (TimeoutError ''request timeout (client interrupt)'')),
             CallbackCalled (UserCallback 0)
               (CbError (TimeoutError ''request timeout (client interrupt)''))]\<rparr>)
   \<and> map_option (map kind \<circ> writes) (socket sentClient) = Some [OtherReq ''SearchRequest'']"
  by (simp add: sentClient_eq fixture_defs requestTimerExpires_def onTimeout_def
      clearRequestTimer_def callHandler_def onMessage_def fetch_def abandon_def remove_def
      effect_def dispatch_def startIdleTimer_def the_id_def Let_def)

section \<open>StartTLS\<close>

lemma starttls_without_listeners_succeeds:
  assumes "socket c = Some s" and "dataListeners s = []" and "errorListeners s = []"
  shows "starttlsSucceeds c tlsSocket cb
     = Inr (effect (c\<lparr>socket := Some (tlsSocket\<lparr>errorListeners := []\<rparr>),
                     starttls_phase := False\<rparr>) (CallbackCalled cb CbNull))"
  using assms
  by (simp add: starttlsSucceeds_def onStartTlsReply_def onSecureConnection_def
      forEachOnThis_def)

lemma setupResponseTracker_listens:
  "dataListeners (fst (setupResponseTracker s d)) \<noteq> []"
  by (simp add: setupResponseTracker_def)

text \<open>
  Claim C6, on a socket with a \<open>data\<close> listener, which is every socket of the client
  (\<open>setupResponseTracker_listens\<close>). The StartTLS request is accepted and the handshake
  completes, and then \<open>onSecureConnection\<close> throws a TypeError while it puts the first
  saved listener back: the socket of the client is not replaced, the phase marker is not
  cleared, the callback is not called. Only on a socket without \<open>data\<close> and \<open>error\<close>
  listeners does the code do what the claim says
  (\<open>starttls_without_listeners_succeeds\<close>).
\<close>

theorem starttls_success_throws:
  assumes "socket c = Some s" and "dataListeners s \<noteq> []"
  shows "starttlsSucceeds c tlsSocket cb = Inl TypeError"
  using assms
  by (simp add: starttlsSucceeds_def onStartTlsReply_def onSecureConnection_def
      forEachOnThis_def)

text \<open>The theorem of C6 at the connected client.\<close>

theorem starttls_success_throws_witness:
  "socket connectedClient = Some (tcpSocket\<lparr>dataListeners := [OnData]\<rparr>)
   \<and> dataListeners (tcpSocket\<lparr>dataListeners := [OnData]\<rparr>) \<noteq> []
   \<and> starttlsSucceeds connectedClient (tlsOver tcpSocket) (UserCallback 0) = Inl TypeError"
proof -
  have h1: "socket connectedClient = Some (tcpSocket\<lparr>dataListeners := [OnData]\<rparr>)"
    by (simp add: connectedClient_def setupResponseTracker_def tcpSocket_def)
  have h2: "dataListeners (tcpSocket\<lparr>dataListeners := [OnData]\<rparr>) \<noteq> []"
    by simp
  show ?thesis
    using h1 h2 starttls_success_throws [OF h1 h2, of "tlsOver tcpSocket" "UserCallback 0"]
    by simp
qed


end
